theory Spec2Isabelle
  imports Complex_Main "HOL-Library.Sublist" "HOL-Library.Product_Lexorder"
begin

unbundle bit_operations_syntax

section \<open>Python string primitives\<close>

text \<open>
  Text is a Python \<open>str\<close>. It is modelled as a HOL \<open>string\<close>, one \<open>char\<close> per code
  point, so the model covers the code points below 256 (ASCII and Latin-1). The
  functions below follow CPython's \<open>str\<close> methods on that range.
\<close>

definition is_space :: "char \<Rightarrow> bool" where
  \<comment> \<open>\<open>str.isspace\<close> on one character: TAB..CR, FS..US, space, NEL, NBSP.\<close>
  "is_space c = (let n = (of_char c :: nat) in
     (9 \<le> n \<and> n \<le> 13) \<or> (28 \<le> n \<and> n \<le> 32) \<or> n = 133 \<or> n = 160)"

definition is_upper_char :: "char \<Rightarrow> bool" where
  \<comment> \<open>\<open>A-Z\<close> and the Latin-1 capitals (192..222 without the multiplication sign 215).\<close>
  "is_upper_char c = (let n = (of_char c :: nat) in
     (65 \<le> n \<and> n \<le> 90) \<or> (192 \<le> n \<and> n \<le> 222 \<and> n \<noteq> 215))"

definition is_lower_char :: "char \<Rightarrow> bool" where
  \<comment> \<open>\<open>a-z\<close>, the ordinal indicators 170 and 186, micro 181, and 223..255 without the
      division sign 247.\<close>
  "is_lower_char c = (let n = (of_char c :: nat) in
     (97 \<le> n \<and> n \<le> 122) \<or> n = 170 \<or> n = 181 \<or> n = 186 \<or>
     (223 \<le> n \<and> n \<le> 255 \<and> n \<noteq> 247))"

definition lower_char :: "char \<Rightarrow> char" where
  "lower_char c = (if is_upper_char c then char_of ((of_char c :: nat) + 32) else c)"

definition lower :: "string \<Rightarrow> string" where
  \<comment> \<open>\<open>str.lower()\<close>\<close>
  "lower s = map lower_char s"

definition strip :: "string \<Rightarrow> string" where
  \<comment> \<open>\<open>str.strip()\<close>: whitespace removed at both ends.\<close>
  "strip s = rev (dropWhile is_space (rev (dropWhile is_space s)))"

fun py_in :: "string \<Rightarrow> string \<Rightarrow> bool" where
  \<comment> \<open>\<open>sub in s\<close> on strings: \<open>sub\<close> occurs in \<open>s\<close> as a contiguous substring.\<close>
  "py_in sub [] = (sub = [])"
| "py_in sub (c # cs) = (prefix sub (c # cs) \<or> py_in sub cs)"

definition any_in :: "string list \<Rightarrow> string \<Rightarrow> bool" where
  \<comment> \<open>\<open>any(w in s for w in ws)\<close>\<close>
  "any_in ws s = list_ex (\<lambda>w. py_in w s) ws"

definition startswith :: "string \<Rightarrow> string \<Rightarrow> bool" where
  "startswith s p = prefix p s"

definition endswith :: "string \<Rightarrow> string \<Rightarrow> bool" where
  "endswith s p = suffix p s"

definition count_char :: "string \<Rightarrow> char \<Rightarrow> nat" where
  \<comment> \<open>\<open>s.count(c)\<close> for a one-character \<open>c\<close>.\<close>
  "count_char s c = length (filter (\<lambda>x. x = c) s)"

definition remove_char :: "char \<Rightarrow> string \<Rightarrow> string" where
  \<comment> \<open>\<open>s.replace(c, '')\<close> for a one-character \<open>c\<close>.\<close>
  "remove_char c s = filter (\<lambda>x. x \<noteq> c) s"

fun split_from :: "string \<Rightarrow> string \<Rightarrow> string list" where
  \<comment> \<open>The scan of \<open>str.split()\<close>; the first argument is the word being read.\<close>
  "split_from w [] = (if w = [] then [] else [w])"
| "split_from w (c # cs) =
     (if is_space c then (if w = [] then split_from [] cs else w # split_from [] cs)
      else split_from (w @ [c]) cs)"

definition py_split :: "string \<Rightarrow> string list" where
  \<comment> \<open>\<open>str.split()\<close>: the maximal runs of non-whitespace characters.\<close>
  "py_split s = split_from [] s"

definition join_space :: "string list \<Rightarrow> string" where
  \<comment> \<open>\<open>" ".join(ss)\<close>\<close>
  "join_space ss = (case ss of [] \<Rightarrow> [] | s # r \<Rightarrow> s @ concat (map (\<lambda>t. CHR '' '' # t) r))"

fun istitle_from :: "bool \<Rightarrow> bool \<Rightarrow> string \<Rightarrow> bool" where
  \<comment> \<open>The loop of \<open>str.istitle()\<close>; the flags are \<open>cased\<close> and \<open>previous_is_cased\<close>.\<close>
  "istitle_from cased previous_is_cased [] = cased"
| "istitle_from cased previous_is_cased (c # cs) =
     (if is_upper_char c then (if previous_is_cased then False else istitle_from True True cs)
      else if is_lower_char c then (if previous_is_cased then istitle_from True True cs else False)
      else istitle_from cased False cs)"

definition istitle :: "string \<Rightarrow> bool" where
  "istitle s = istitle_from False False s"

definition isupper :: "string \<Rightarrow> bool" where
  \<comment> \<open>\<open>str.isupper()\<close>: no lowercase character and at least one uppercase one.\<close>
  "isupper s = (\<not> list_ex is_lower_char s \<and> list_ex is_upper_char s)"

definition is_digit_char :: "char \<Rightarrow> bool" where
  \<comment> \<open>\<open>0-9\<close>, the decimal digits below code point 256.\<close>
  "is_digit_char c = (let n = (of_char c :: nat) in 48 \<le> n \<and> n \<le> 57)"

definition is_ascii_letter :: "char \<Rightarrow> bool" where
  \<comment> \<open>The class \<open>[a-zA-Z]\<close>.\<close>
  "is_ascii_letter c = (let n = (of_char c :: nat) in (65 \<le> n \<and> n \<le> 90) \<or> (97 \<le> n \<and> n \<le> 122))"

definition is_ascii_upper :: "char \<Rightarrow> bool" where
  \<comment> \<open>The class \<open>[A-Z]\<close>.\<close>
  "is_ascii_upper c = (let n = (of_char c :: nat) in 65 \<le> n \<and> n \<le> 90)"

definition is_ascii_lower :: "char \<Rightarrow> bool" where
  \<comment> \<open>The class \<open>[a-z]\<close>.\<close>
  "is_ascii_lower c = (let n = (of_char c :: nat) in 97 \<le> n \<and> n \<le> 122)"

definition is_word_char :: "char \<Rightarrow> bool" where
  \<comment> \<open>The class \<open>\w\<close> of a \<open>str\<close> pattern: the underscore and what \<open>str.isalnum\<close>
      accepts, which below code point 256 is the letters, the digits, and the numeric
      characters 178, 179, 185 and 188..190.\<close>
  "is_word_char c = (let n = (of_char c :: nat) in
     is_upper_char c \<or> is_lower_char c \<or> is_digit_char c \<or> n = 95 \<or>
     n = 178 \<or> n = 179 \<or> n = 185 \<or> (188 \<le> n \<and> n \<le> 190))"

section \<open>Regular expressions\<close>

text \<open>
  The patterns of the program are \<open>re\<close> patterns used for a yes-or-no answer only
  (\<open>re.match\<close> and \<open>re.search\<close> as conditions). They are modelled by regular expressions
  over character predicates, matched by derivatives; greedy and lazy repetition accept
  the same strings and are not told apart.
\<close>

datatype rx = Fail | Eps | Atom "char \<Rightarrow> bool" | Alt rx rx | Seq rx rx | Star rx

fun nullable :: "rx \<Rightarrow> bool" where
  "nullable Fail = False"
| "nullable Eps = True"
| "nullable (Atom p) = False"
| "nullable (Alt r s) = (nullable r \<or> nullable s)"
| "nullable (Seq r s) = (nullable r \<and> nullable s)"
| "nullable (Star r) = True"

fun alt :: "rx \<Rightarrow> rx \<Rightarrow> rx" where
  "alt Fail s = s"
| "alt r Fail = r"
| "alt r s = Alt r s"

fun seq :: "rx \<Rightarrow> rx \<Rightarrow> rx" where
  "seq Fail s = Fail"
| "seq r Fail = Fail"
| "seq Eps s = s"
| "seq r Eps = r"
| "seq r s = Seq r s"

fun deriv :: "char \<Rightarrow> rx \<Rightarrow> rx" where
  "deriv c Fail = Fail"
| "deriv c Eps = Fail"
| "deriv c (Atom p) = (if p c then Eps else Fail)"
| "deriv c (Alt r s) = alt (deriv c r) (deriv c s)"
| "deriv c (Seq r s) =
     (if nullable r then alt (seq (deriv c r) s) (deriv c s) else seq (deriv c r) s)"
| "deriv c (Star r) = seq (deriv c r) (Star r)"

definition fullmatch :: "rx \<Rightarrow> string \<Rightarrow> bool" where
  \<comment> \<open>The whole string is in the language of the expression.\<close>
  "fullmatch r s = nullable (foldl (\<lambda>r c. deriv c r) r s)"

definition chr :: "char \<Rightarrow> rx" where "chr c = Atom (\<lambda>x. x = c)"
definition chr_i :: "char \<Rightarrow> rx" where
  \<comment> \<open>One character under \<open>re.IGNORECASE\<close>.\<close>
  "chr_i c = Atom (\<lambda>x. lower_char x = lower_char c)"
definition lit :: "string \<Rightarrow> rx" where "lit s = foldr (\<lambda>c r. Seq (chr c) r) s Eps"
definition lit_i :: "string \<Rightarrow> rx" where "lit_i s = foldr (\<lambda>c r. Seq (chr_i c) r) s Eps"
definition anychar :: rx where "anychar = Atom (\<lambda>x. True)"
definition dot :: rx where
  \<comment> \<open>\<open>.\<close> without \<open>re.DOTALL\<close>: any character but the newline.\<close>
  "dot = Atom (\<lambda>x. x \<noteq> CHR 0x0A)"
definition digit :: rx where "digit = Atom is_digit_char"
definition ws :: rx where "ws = Atom is_space"
definition one_of :: "string \<Rightarrow> rx" where "one_of cs = Atom (\<lambda>x. x \<in> set cs)"
definition many1 :: "rx \<Rightarrow> rx" where "many1 r = Seq r (Star r)"
definition opt :: "rx \<Rightarrow> rx" where "opt r = Alt Eps r"
definition alts :: "rx list \<Rightarrow> rx" where "alts rs = foldr Alt rs Fail"
definition seqs :: "rx list \<Rightarrow> rx" where "seqs rs = foldr Seq rs Eps"
definition words :: "string list \<Rightarrow> rx" where
  \<comment> \<open>\<open>(w1|w2|...)\<close>\<close>
  "words ss = alts (map lit ss)"
definition times :: "nat \<Rightarrow> rx \<Rightarrow> rx" where
  \<comment> \<open>\<open>r{n}\<close>\<close>
  "times n r = seqs (replicate n r)"
definition at_least :: "nat \<Rightarrow> rx \<Rightarrow> rx" where
  \<comment> \<open>\<open>r{n,}\<close>\<close>
  "at_least n r = Seq (times n r) (Star r)"

definition re_match :: "rx \<Rightarrow> string \<Rightarrow> bool" where
  \<comment> \<open>\<open>re.match(p, s)\<close> as a condition: some prefix of \<open>s\<close> matches \<open>p\<close>. A leading
      \<open>^\<close> in the pattern changes nothing and is dropped.\<close>
  "re_match r s = fullmatch (Seq r (Star anychar)) s"

definition re_match_end :: "rx \<Rightarrow> string \<Rightarrow> bool" where
  \<comment> \<open>\<open>re.match\<close> with a pattern \<open>p$\<close>: \<open>p\<close> matches all of \<open>s\<close>, or all of \<open>s\<close> but a
      final newline.\<close>
  "re_match_end r s = fullmatch (Seq r (opt (chr (CHR 0x0A)))) s"

definition re_search :: "rx \<Rightarrow> string \<Rightarrow> bool" where
  \<comment> \<open>\<open>re.search(p, s)\<close> as a condition: some substring of \<open>s\<close> matches \<open>p\<close>.\<close>
  "re_search r s = fullmatch (Seq (Star anychar) (Seq r (Star anychar))) s"

definition re_search_word :: "rx \<Rightarrow> string \<Rightarrow> bool" where
  \<comment> \<open>\<open>re.search\<close> with a pattern \<open>\bp\b\<close> whose matches begin and end with a word
      character: the match is preceded by a non-word character or the start of \<open>s\<close>, and
      followed by a non-word character or the end of \<open>s\<close>.\<close>
  "re_search_word r s =
     fullmatch (seqs [opt (Seq (Star anychar) (Atom (\<lambda>x. \<not> is_word_char x))), r,
                      opt (Seq (Atom (\<lambda>x. \<not> is_word_char x)) (Star anychar))]) s"

definition re_search_word_start :: "rx \<Rightarrow> string \<Rightarrow> bool" where
  \<comment> \<open>\<open>re.search\<close> with a pattern \<open>\bp\<close> whose matches begin with a word character.\<close>
  "re_search_word_start r s =
     fullmatch (seqs [opt (Seq (Star anychar) (Atom (\<lambda>x. \<not> is_word_char x))), r,
                      Star anychar]) s"

section \<open>Hierarchy validation and deduplication (extractor.py)\<close>

text \<open>
  A heading is the dictionary built by the detectors. The level string \<open>"H<n>"\<close> is
  kept as the number \<open>n\<close> that \<open>int(heading["level"][1:])\<close> reads back. The keys
  \<open>confidence\<close> and \<open>bbox\<close> may be absent (\<open>h.get("confidence", 0)\<close>,
  \<open>x.get("bbox", [0, 0, 0, 0])\<close>), hence the options.
\<close>

record heading =
  h_text :: string
  h_level :: nat
  h_page :: nat
  h_font_size :: real
  h_font :: string
  h_confidence :: "real option"
  h_bbox :: "(real \<times> real \<times> real \<times> real) option"

definition get_confidence :: "heading \<Rightarrow> real" where
  "get_confidence h = (case h_confidence h of None \<Rightarrow> 0 | Some c \<Rightarrow> c)"

definition position_key :: "heading \<Rightarrow> nat \<times> real" where
  \<comment> \<open>\<open>lambda x: (x["page"], x.get("bbox", [0, 0, 0, 0])[1])\<close>\<close>
  "position_key h = (h_page h, (case h_bbox h of None \<Rightarrow> 0 | Some (x0, y0, x1, y1) \<Rightarrow> y0))"

fun validate_loop :: "nat \<Rightarrow> heading list \<Rightarrow> heading list" where
  \<comment> \<open>The \<open>for heading in outline\<close> loop of \<open>_validate_hierarchy\<close>; the first argument
      is \<open>last_level\<close>.\<close>
  "validate_loop last_level [] = []"
| "validate_loop last_level (h # hs) =
     (let current_level = h_level h in
      if current_level > last_level + 1 \<and> last_level > 0
      then (let new_level = min current_level (last_level + 1)
            in h\<lparr>h_level := new_level\<rparr> # validate_loop new_level hs)
      else h # validate_loop current_level hs)"

definition validate_hierarchy :: "heading list \<Rightarrow> heading list" where
  "validate_hierarchy outline =
     (if length outline \<le> 1 then outline else validate_loop 0 outline)"

fun group_add :: "string \<Rightarrow> heading \<Rightarrow> (string \<times> heading list) list
    \<Rightarrow> (string \<times> heading list) list" where
  \<comment> \<open>\<open>text_groups[key].append(heading)\<close> on an insertion-ordered \<open>defaultdict(list)\<close>.\<close>
  "group_add k h [] = [(k, [h])]"
| "group_add k h ((k', hs) # gs) =
     (if k = k' then (k', hs @ [h]) # gs else (k', hs) # group_add k h gs)"

definition text_groups :: "heading list \<Rightarrow> (string \<times> heading list) list" where
  "text_groups outline = foldl (\<lambda>gs h. group_add (lower (h_text h)) h gs) [] outline"

fun max_by_confidence :: "heading \<Rightarrow> heading list \<Rightarrow> heading" where
  \<comment> \<open>\<open>max(headings, key=...)\<close>: the first element with the greatest key.\<close>
  "max_by_confidence best [] = best"
| "max_by_confidence best (h # hs) =
     max_by_confidence (if get_confidence h > get_confidence best then h else best) hs"

fun best_of_group :: "heading list \<Rightarrow> heading list" where
  "best_of_group [] = []"
| "best_of_group (h # hs) = [max_by_confidence h hs]"

definition remove_duplicates :: "heading list \<Rightarrow> heading list" where
  "remove_duplicates outline =
     (if outline = [] then outline
      else sort_key position_key (concat (map (\<lambda>(k, hs). best_of_group hs) (text_groups outline))))"

definition keep_heading :: "string \<Rightarrow> heading \<Rightarrow> bool" where
  \<comment> \<open>The filter condition of \<open>_post_process_headings\<close>; \<open>title_lower\<close> is
      \<open>title.strip().lower()\<close>.\<close>
  "keep_heading title_lower h =
     (lower (strip (h_text h)) \<noteq> title_lower \<and>
      \<not> (length (strip (h_text h)) > 10 \<and> py_in (lower (strip (h_text h))) title_lower) \<and>
      \<not> (length title_lower > 10 \<and> py_in title_lower (lower (strip (h_text h)))))"

definition post_process_headings :: "heading list \<Rightarrow> string \<Rightarrow> heading list" where
  \<comment> \<open>\<open>_post_process_headings\<close>; its \<open>font_stats\<close> argument is never read.\<close>
  "post_process_headings outline title =
     (if outline = [] then outline
      else
        (let outline1 = (if strip title \<noteq> []
                         then filter (keep_heading (lower (strip title))) outline
                         else outline);
             outline2 = sort_key position_key outline1;
             outline3 = validate_hierarchy outline2
         in remove_duplicates outline3))"

fun level_monotone :: "heading list \<Rightarrow> bool" where
  \<comment> \<open>Each entry is at most one level deeper than the entry before it.\<close>
  "level_monotone [] = True"
| "level_monotone [h] = True"
| "level_monotone (h # h' # hs) = (h_level h' \<le> h_level h + 1 \<and> level_monotone (h' # hs))"


section \<open>Span consolidation (text_extraction.py)\<close>

type_synonym rect = "real \<times> real \<times> real \<times> real"

definition x0 :: "rect \<Rightarrow> real" where "x0 b = fst b"
definition y0 :: "rect \<Rightarrow> real" where "y0 b = fst (snd b)"
definition x1 :: "rect \<Rightarrow> real" where "x1 b = fst (snd (snd b))"
definition y1 :: "rect \<Rightarrow> real" where "y1 b = snd (snd (snd b))"

record span =
  s_text :: string
  s_font :: string
  s_size :: real
  s_flags :: int
  s_bbox :: rect
  s_page :: nat

definition span_key :: "span \<Rightarrow> nat \<times> real \<times> real" where
  \<comment> \<open>\<open>lambda s: (s["page"], s["bbox"][1], s["bbox"][0])\<close>\<close>
  "span_key s = (s_page s, y0 (s_bbox s), x0 (s_bbox s))"

definition font_family :: "string \<Rightarrow> string" where
  \<comment> \<open>\<open>font.split('-')[0]\<close>\<close>
  "font_family f = takeWhile (\<lambda>c. c \<noteq> CHR ''-'') f"

definition can_join :: "span \<Rightarrow> span \<Rightarrow> span \<Rightarrow> bool" where
  \<comment> \<open>One round of the inner \<open>while\<close> loop of \<open>consolidate_adjacent_spans\<close>: False is a
      \<open>break\<close>. The arguments are \<open>current_span\<close>, \<open>potential_group[-1]\<close> and
      \<open>next_span\<close>.\<close>
  "can_join current_span group_last next_span =
     (if s_page next_span \<noteq> s_page current_span then False
      else if \<bar>y0 (s_bbox next_span) - y0 (s_bbox current_span)\<bar>
                > max 2 (min 5 (s_size current_span / 8)) then False
      else if x0 (s_bbox next_span) - x1 (s_bbox group_last)
                > max 20 (min 50 (s_size current_span * 2)) then False
      else (s_flags current_span AND 16) = (s_flags next_span AND 16)
         \<and> \<bar>s_size next_span - s_size current_span\<bar> < 8
         \<and> font_family (s_font current_span) = font_family (s_font next_span))"

fun collect_group :: "span \<Rightarrow> span list \<Rightarrow> span list \<Rightarrow> span list \<times> span list" where
  \<comment> \<open>The inner \<open>while j < len(sorted_spans)\<close> loop: the group so far and the spans from
      index \<open>j\<close> on; it returns the finished group and the spans left.\<close>
  "collect_group current_span potential_group [] = (potential_group, [])"
| "collect_group current_span potential_group (next_span # rest) =
     (if can_join current_span (last potential_group) next_span
      then collect_group current_span (potential_group @ [next_span]) rest
      else (potential_group, next_span # rest))"

fun combine_text :: "string \<Rightarrow> span list \<Rightarrow> string" where
  \<comment> \<open>The \<open>for k, span in enumerate(potential_group)\<close> loop from \<open>k = 1\<close> on.\<close>
  "combine_text combined_text [] = combined_text"
| "combine_text combined_text (s # ss) =
     combine_text (if py_in (s_text s) ''!?.,;:''
                   then combined_text @ s_text s
                   else combined_text @ '' '' @ s_text s) ss"

definition consolidated_span :: "span \<Rightarrow> span list \<Rightarrow> span" where
  \<comment> \<open>The dictionary built for a group of several spans: \<open>first_span\<close> and the spans
      after it.\<close>
  "consolidated_span first_span others =
     (let potential_group = first_span # others in
      \<lparr> s_text = combine_text (s_text first_span) others,
        s_font = s_font first_span,
        s_size = sum_list (map s_size potential_group) / real (length potential_group),
        s_flags = s_flags first_span,
        s_bbox = (x0 (s_bbox first_span), y0 (s_bbox first_span),
                  x1 (s_bbox (last potential_group)), y1 (s_bbox first_span)),
        s_page = s_page first_span \<rparr>)"

lemma collect_group_rest_length:
  "length (snd (collect_group c g r)) \<le> length r"
proof (induction r arbitrary: g)
  case Nil
  show ?case by simp
next
  case (Cons a r)
  show ?case using Cons [of "g @ [a]"] by auto
qed

function consolidate_loop :: "span list \<Rightarrow> span list" where
  \<comment> \<open>The outer \<open>while i < len(sorted_spans)\<close> loop, on the spans from index \<open>i\<close> on.\<close>
  "consolidate_loop [] = []"
| "consolidate_loop (current_span # rest) =
     (case collect_group current_span [current_span] rest of
        (potential_group, rest') \<Rightarrow>
          (if length potential_group > 1
           then consolidated_span current_span (tl potential_group)
           else current_span) # consolidate_loop rest')"
  by pat_completeness auto
termination
proof (relation "measure length", goal_cases)
  case 1
  show ?case by simp
next
  case (2 current_span rest potential_group rest')
  then have "rest' = snd (collect_group current_span [current_span] rest)"
    by (metis snd_conv)
  then show ?case
    using collect_group_rest_length [of current_span "[current_span]" rest] by simp
qed

definition consolidate_adjacent_spans :: "span list \<Rightarrow> span list" where
  "consolidate_adjacent_spans spans =
     (if spans = [] then spans else consolidate_loop (sort_key span_key spans))"

definition bbox_union :: "span list \<Rightarrow> rect" where
  \<comment> \<open>The union the claim describes: least \<open>x0\<close> and \<open>y0\<close>, greatest \<open>x1\<close> and \<open>y1\<close> of a
      non-empty group.\<close>
  "bbox_union grp =
     (Min (set (map (\<lambda>s. x0 (s_bbox s)) grp)), Min (set (map (\<lambda>s. y0 (s_bbox s)) grp)),
      Max (set (map (\<lambda>s. x1 (s_bbox s)) grp)), Max (set (map (\<lambda>s. y1 (s_bbox s)) grp)))"

section \<open>Font statistics (analysis.py)\<close>

text \<open>
  Sizes and positions are Python floats. They are modelled as real numbers: the model
  computes what the code computes in exact arithmetic, without rounding. \<open>numpy\<close>
  is a library; its functions are modelled as documented (the percentile by linear
  interpolation between the two nearest ranks, numpy's default).
\<close>

record block =
  b_text :: string
  b_font_size :: real
  b_font :: string
  b_font_flags :: int
  b_page :: nat
  b_bbox :: rect

definition np_mean :: "real list \<Rightarrow> real" where
  "np_mean xs = sum_list xs / real (length xs)"

definition np_std :: "real list \<Rightarrow> real" where
  "np_std xs = sqrt (np_mean (map (\<lambda>x. (x - np_mean xs)\<^sup>2) xs))"

definition np_median :: "real list \<Rightarrow> real" where
  "np_median xs =
     (let s = sort xs; n = length s in
      if odd n then s ! (n div 2) else (s ! (n div 2 - 1) + s ! (n div 2)) / 2)"

definition np_percentile :: "real list \<Rightarrow> real \<Rightarrow> real" where
  \<comment> \<open>\<open>np.percentile(a, q)\<close> for a sorted, non-empty \<open>a\<close> and \<open>0 \<le> q \<le> 100\<close>.\<close>
  "np_percentile a q =
     (let n = length a;
          virtual_index = q / 100 * real (n - 1);
          previous_index = nat \<lfloor>virtual_index\<rfloor>;
          next_index = min (previous_index + 1) (n - 1);
          gamma = virtual_index - real previous_index
      in a ! previous_index + gamma * (a ! next_index - a ! previous_index))"

definition py_round :: "real \<Rightarrow> int" where
  \<comment> \<open>\<open>round(x)\<close>: to the nearest integer, a tie to the even one.\<close>
  "py_round x =
     (let f = \<lfloor>x\<rfloor>; d = x - of_int f in
      if d < 1 / 2 then f else if d > 1 / 2 then f + 1 else if even f then f else f + 1)"

record size_cluster =
  c_level :: nat
  c_min_size :: real
  c_confidence :: real

definition clusters :: "real \<Rightarrow> real \<Rightarrow> real \<Rightarrow> real \<Rightarrow> real \<Rightarrow> real \<Rightarrow> size_cluster list" where
  "clusters m1 k1 m2 k2 m3 k3 =
     [\<lparr>c_level = 1, c_min_size = m1, c_confidence = k1\<rparr>,
      \<lparr>c_level = 2, c_min_size = m2, c_confidence = k2\<rparr>,
      \<lparr>c_level = 3, c_min_size = m3, c_confidence = k3\<rparr>]"

definition size_clusters_of :: "real list \<Rightarrow> real \<Rightarrow> real list \<Rightarrow> real \<Rightarrow> real \<Rightarrow> size_cluster list" where
  \<comment> \<open>The \<open>if len(set(font_sizes)) > 3: ... else: ...\<close> statement that builds
      \<open>size_clusters\<close>, from the sizes, the median, the five percentiles, and the
      least and greatest size.\<close>
  "size_clusters_of font_sizes median percentiles size_min size_max =
     (if length (remdups font_sizes) > 3 then
        (let p95 = percentiles ! 4; p90 = percentiles ! 3; p75 = percentiles ! 2;
             p50 = percentiles ! 1; p25 = percentiles ! 0;
             font_variety = length (remdups (map py_round (filter (\<lambda>size. size > 0) font_sizes)));
             size_range = size_max - size_min
         in if font_variety \<le> 3 \<and> size_range < 6
            then clusters (max p75 (median * 1.3)) 0.9 (max p50 (median * 1.15)) 0.8
                   (median * 1.05) 0.7
            else if font_variety \<ge> 5 \<and> size_range > 10
            then clusters (max p95 (median * 1.8)) 0.9 (max p90 (median * 1.5)) 0.8
                   (max p75 (median * 1.3)) 0.7
            else clusters (max p90 (median * 1.6)) 0.9 (max p75 (median * 1.4)) 0.8
                   (max p50 (median * 1.2)) 0.7)
      else clusters (median * 1.5) 0.7 (median * 1.3) 0.6 (median * 1.1) 0.5)"

record font_statistics =
  fs_mean :: real
  fs_median :: real
  fs_std :: real
  fs_min :: "real option"
  fs_max :: "real option"
  fs_size_clusters :: "size_cluster list"
  fs_percentiles :: "real list option"
  fs_h1 :: real
  fs_h2 :: real
  fs_h3 :: real

definition analyze_font_statistics :: "block list \<Rightarrow> font_statistics" where
  \<comment> \<open>The keys \<open>min\<close>, \<open>max\<close> and \<open>percentiles\<close> are absent from the default
      dictionary; \<open>heading_thresholds\<close> is the three fields \<open>fs_h1\<close>, \<open>fs_h2\<close>, \<open>fs_h3\<close>.
      The font histograms (\<open>common_fonts\<close>, \<open>font_families\<close>, \<open>bold_fonts\<close>) feed
      no threshold and are left out.\<close>
  "analyze_font_statistics blocks =
     (let font_sizes = filter (\<lambda>size. size > 0) (map b_font_size blocks) in
      if font_sizes = []
      then \<lparr> fs_mean = 12, fs_median = 12, fs_std = 1, fs_min = None, fs_max = None,
             fs_size_clusters = [], fs_percentiles = None,
             fs_h1 = 16, fs_h2 = 14, fs_h3 = 12 \<rparr>
      else
        (let mean = np_mean font_sizes;
             median = np_median font_sizes;
             size_min = Min (set font_sizes);
             size_max = Max (set font_sizes);
             font_sizes_sorted = sort font_sizes;
             percentiles = map (np_percentile font_sizes_sorted) [25, 50, 75, 90, 95];
             size_clusters = size_clusters_of font_sizes median percentiles size_min size_max
         in \<lparr> fs_mean = mean, fs_median = median, fs_std = np_std font_sizes,
               fs_min = Some size_min, fs_max = Some size_max,
               fs_size_clusters = size_clusters, fs_percentiles = Some percentiles,
               fs_h1 = (if size_clusters \<noteq> [] then c_min_size (size_clusters ! 0)
                        else median * 1.4),
               fs_h2 = (if length size_clusters > 1 then c_min_size (size_clusters ! 1)
                        else median * 1.2),
               fs_h3 = (if mean > 12 then max (mean * 0.85) 8.0
                        else max (mean * 0.8) 7.5) \<rparr>))"

section \<open>Noise classification (analysis.py)\<close>

definition is_special_char :: "char \<Rightarrow> bool" where
  \<comment> \<open>The character class of \<open>special_chars\<close>; backslash, double quote, quote and
      backquote are given by their code points.\<close>
  "is_special_char c =
     (c \<in> set (''-_=+*#@$%^&(){}[]|:;,.<>?/~!'' @ [CHR 0x5C, CHR 0x22, CHR 0x27, CHR 0x60]))"

definition numbered_item :: rx where
  \<comment> \<open>\<open>^\d+\.\<close>\<close>
  "numbered_item = seqs [many1 digit, chr CHR ''.'']"

definition chapter_heading :: rx where
  \<comment> \<open>\<open>^Chapter\s+\d+:\<close> under \<open>re.IGNORECASE\<close>\<close>
  "chapter_heading = seqs [lit_i ''Chapter'', many1 ws, many1 digit, chr CHR '':'']"

definition document_metadata :: "string \<Rightarrow> bool" where
  \<comment> \<open>Some pattern of \<open>document_metadata_patterns\<close> matches, under \<open>re.IGNORECASE\<close>.\<close>
  "document_metadata text =
     (re_match_end (seqs [lit_i ''International'', many1 ws, Star dot, many1 ws,
                          lit_i ''Qualification'', opt (chr_i CHR ''s''), many1 ws,
                          lit_i ''Board'']) text
      \<or> re_match_end (seqs [Star dot, lit_i ''Software'', many1 ws, lit_i ''Testing'', Star dot,
                          lit_i ''Foundation'', Star dot, lit_i ''Level'', Star dot,
                          lit_i ''Extension'', Star dot, lit_i ''Qualifications'']) text
      \<or> re_match_end (seqs [lit_i ''Copyright'', many1 ws, chr (CHR 0xA9), Star dot,
                          lit_i ''International'', Star dot]) text
      \<or> re_match_end (seqs [lit_i ''Version'', many1 ws, many1 digit, Star dot, lit_i ''Page'',
                          many1 ws, many1 digit, Star dot, lit_i ''of'', many1 ws, many1 digit,
                          Star dot]) text
      \<or> re_match_end (seqs [Star dot, lit_i ''Page'', many1 ws, many1 digit, many1 ws,
                          lit_i ''of'', many1 ws, many1 digit, Star dot, times 4 digit]) text)"

definition basic_noise :: "string \<Rightarrow> bool" where
  \<comment> \<open>The disjunction \<open>basic_noise\<close>, in the order of the source; \<open>and\<close> binds tighter
      than \<open>or\<close>.\<close>
  "basic_noise text =
     (re_match (seqs [many1 digit, chr CHR ''.'', Star ws,
                      words [''name'', ''designation'', ''date'', ''salary'', ''grade'', ''pay'',
                             ''scale'', ''station'', ''whether'', ''home'', ''amount'',
                             ''details'', ''place'']]) (lower text)
      \<or> re_match_end (seqs [words [''name'', ''designation'', ''date'', ''salary'', ''grade'',
                                  ''pay'', ''scale'', ''station''],
                           opt (seqs [many1 ws, lit ''of'', Star dot]),
                           opt (chr CHR '':''), Star ws]) (lower text)
      \<or> re_match (seqs [lit ''date'', many1 ws, lit ''of'', many1 ws,
                       words [''entering'', ''joining'', ''birth'', ''appointment'']]) (lower text)
      \<or> re_match (seqs [lit ''signature'', many1 ws, lit ''of'', many1 ws]) (lower text)
      \<or> re_match (seqs [chr CHR ''('', Atom is_ascii_lower, chr CHR '')'', many1 ws,
                       lit ''block'', many1 ws, lit ''for'', many1 ws, lit ''which''])
            (lower text)
      \<or> re_match (seqs [lit ''block'', many1 ws, lit ''for'', many1 ws, lit ''which''])
            (lower text)
      \<or> re_match (seqs [lit ''whether'', many1 ws]) (lower text)
      \<or> re_match (seqs [chr CHR ''('', Atom is_ascii_lower, chr CHR '')'', many1 ws,
                       lit ''if'', many1 ws]) (lower text)
      \<or> re_match (seqs [lit ''single'', many1 ws, words [''rail'', ''bus''], many1 ws,
                       lit ''fare'']) (lower text)
      \<or> re_match (seqs [lit ''headquarters'', many1 ws, lit ''to'', many1 ws]) (lower text)
      \<or> endswith (lower text) '' route.''
      \<or> py_in ''entitled to ltc'' (lower text)
      \<or> py_in ''ltc is to be availed'' (lower text)
      \<or> py_in ''place to be visited'' (lower text)
      \<or> lower text \<in> set [''s.no'', ''serial number'', ''amount'', ''details'', ''remarks'',
                             ''signature'', ''name'', ''relationship'', ''date'', ''designation'',
                             ''salary'', ''grade'', ''pay'', ''service'']
      \<or> lower text = ''copyright''
      \<or> startswith (lower text) (''copyright '' @ [CHR 0xA9])
      \<or> (re_match_end (seqs [Star dot, many1 ws, many1 digit, Star ws]) text
           \<and> length text > 15 \<and> \<not> startswith (lower text) ''table'')
      \<or> real (count_char text CHR ''.'') > real (length text) * 0.15
      \<or> startswith text [CHR 0xA9]
      \<or> startswith (lower text) ''copyright''
      \<or> re_match_end (many1 digit) (strip text)
      \<or> re_search_word_start (seqs [lit ''page'', Star ws, many1 digit]) (lower text)
      \<or> (startswith (lower text) ''version'' \<and> length (py_split text) \<le> 3)
      \<or> startswith (lower text) ''http''
      \<or> (startswith (lower text) ''www.'' \<and> length text > 20)
      \<or> (py_in ''page '' (lower text) \<and> py_in ''of '' (lower text))
      \<or> endswith (lower text) '' of ''
      \<or> startswith (lower text) ''page '')"

definition is_noise_with_confidence ::
    "string \<Rightarrow> real \<Rightarrow> font_statistics \<Rightarrow> string list \<Rightarrow> bool" where
  \<comment> \<open>\<open>is_noise_with_confidence(text, font_size, font_stats, noise_patterns)\<close>; each
      \<open>if ...: return\<close> of the source is one branch, in the order of the source.\<close>
  "is_noise_with_confidence text font_size font_stats noise_patterns =
     (let text_stripped = strip text;
          special_chars = length (filter is_special_char text_stripped);
          letters = length (filter is_ascii_letter text_stripped);
          unique_chars = remdups (remove_char CHR '' '' text_stripped)
      in
      if text_stripped \<in> set noise_patterns then True
      else if text_stripped \<in> set [''WWW.TOPJUMP.COM'', ''ADDRESS:''] then False
      else if special_chars > 0 \<and> letters > 0 \<and> real special_chars / real letters > 0.5
      then True
      else if length text_stripped > 5 \<and> length unique_chars \<le> 2
              \<and> list_ex (\<lambda>char. char \<in> set ''-_=+*#'') unique_chars
      then True
      else if text_stripped \<in> set [''Application form for grant of LTC advance'',
                                     ''Leave Travel Concession'', ''Terms and Conditions'']
      then False
      else if document_metadata text then True
      else if startswith (lower text) ''www.'' \<or> startswith (lower text) ''http''
              \<or> py_in ''.com'' (lower text) \<or> py_in ''.org'' (lower text)
              \<or> py_in ''.net'' (lower text)
      then True
      else if re_match (seqs [lit ''rsvp:'', Star ws, at_least 3 (one_of ''-_'')]) (lower text)
              \<or> py_in ''phone:'' (lower text) \<or> py_in ''email:'' (lower text)
      then True
      else if re_match (seqs [many1 digit, chr CHR ''.'', many1 ws,
                              words [''name'', ''designation'', ''date'', ''salary'', ''pay'',
                                     ''grade'', ''age'', ''relationship'']]) (lower text)
              \<or> endswith (lower text) ''rs.''
              \<or> re_match (seqs [lit ''s.no'', many1 ws, lit ''name'', many1 ws, lit ''age''])
                    (lower text)
      then True
      else if length text > 120 \<and> \<not> re_match numbered_item text
              \<and> \<not> re_match chapter_heading text
              \<and> \<not> any_in [''professional'', ''testing'', ''experience'', ''methods'',
                            ''techniques''] (lower text)
      then True
      else if length text > 100 \<and> length (py_split text) > 15
              \<and> \<not> re_match numbered_item text \<and> \<not> re_match chapter_heading text
      then True
      else if basic_noise text then True
      else if length text > 80 \<and> \<not> re_match numbered_item text
              \<and> \<not> re_match chapter_heading text
              \<and> \<not> any_in [''introduction'', ''overview'', ''summary'', ''conclusion'',
                            ''principles'', ''methods'', ''techniques''] (lower text)
      then True
      else if length text > 50 \<and> any_in noise_patterns (lower text) then True
      else if endswith (lower text) '':'' \<and> length (py_split text) \<le> 2
              \<and> any_in [''contact'', ''email'', ''phone''] (lower text)
      then True
      else if length (py_split text) = 1 \<and> length text < 10
              \<and> any_in [''parkway'', ''avenue'', ''street'', ''road'', ''suite'', ''floor'']
                    (lower text)
      then True
      else if re_match_end
                (seqs [words [''january'', ''february'', ''march'', ''april'', ''may'', ''june'',
                              ''july'', ''august'', ''september'', ''october'', ''november'',
                              ''december''],
                       many1 ws, digit, opt digit, opt (chr CHR '',''), many1 ws,
                       times 4 digit]) (lower text)
      then True
      else if (count_char text CHR ''-'' > 15 \<or> count_char text CHR ''_'' > 5
               \<or> (length (remdups (remove_char CHR ''-'' (remove_char CHR '' '' text))) \<le> 2
                   \<and> length text > 8))
              \<and> \<not> (startswith (lower text) ''rsvp''
                     \<and> (py_in '':'' text \<or> startswith (lower text) ''rsvp:''))
      then True
      else False)"

section \<open>Heading confidence (analysis.py)\<close>

text \<open>
  \<open>calculate_heading_confidence\<close> updates two local variables, \<open>confidence\<close> and
  \<open>suggested_level\<close>, rule after rule. Each group of rules is a function on that pair;
  the level \<open>"H<n>"\<close> is the number \<open>n\<close>.
\<close>

definition size_tier :: "real \<Rightarrow> font_statistics \<Rightarrow> real \<times> nat" where
  \<comment> \<open>The font size tiers, from \<open>confidence = 0.0\<close> and \<open>suggested_level = "H3"\<close>.\<close>
  "size_tier font_size font_stats =
     (if font_size \<ge> fs_h1 font_stats then (0.4, 1)
      else if font_size \<ge> fs_h2 font_stats then (0.3, 2)
      else if font_size \<ge> fs_h3 font_stats then (0.25, 3)
      else (- 0.1, 3))"

definition is_bold :: "string \<Rightarrow> int \<Rightarrow> bool" where
  \<comment> \<open>\<open>has_bold_flag or is_bold_font\<close>\<close>
  "is_bold font font_flags =
     ((font_flags AND 16) \<noteq> 0
      \<or> any_in [''bold'', ''black'', ''heavy'', ''demi'', ''semibold'', ''extrabold'', ''boldmt'']
            (lower font))"

definition bold_rule :: "real \<times> nat \<Rightarrow> real \<times> nat" where
  \<comment> \<open>The body of \<open>if is_bold:\<close>.\<close>
  "bold_rule cl =
     (let confidence = fst cl + 0.3; suggested_level = snd cl in
      (confidence,
       if suggested_level = 3 \<and> confidence > 0.4 then 2
       else if suggested_level = 2 \<and> confidence > 0.6 then 1
       else suggested_level))"

definition form_field_score :: "string \<Rightarrow> real option" where
  \<comment> \<open>The loop over \<open>form_field_patterns\<close> on \<open>text_lower\<close>: the score of the first
      pattern found, if any. Every pattern sets the level H3.\<close>
  "form_field_score text_lower =
     (if re_search_word (words [''name'', ''designation'', ''date'', ''service'', ''account'',
                                ''emoluments'', ''salary'', ''pay'', ''grade'', ''department''])
           text_lower then Some 0.35
      else if re_search_word (words [''present'', ''current'', ''basic'', ''leave'', ''advance'',
                                     ''grant'', ''application'']) text_lower then Some 0.25
      else if re_match (seqs [Atom is_ascii_upper, many1 (Atom is_ascii_lower), many1 ws,
                              words [''of'', ''being'', ''drawn'', ''number'', ''account'']])
                text_lower then Some 0.3
      else if re_match (seqs [Atom is_ascii_upper,
                              many1 (Atom (\<lambda>c. is_ascii_letter c \<or> is_space c)),
                              words [''Government'', ''Service'', ''Department'']])
                text_lower then Some 0.3
      else if re_match_end (seqs [Atom is_ascii_upper, many1 (Atom is_ascii_lower),
                                  at_least 2 (seqs [many1 ws, Atom is_ascii_upper,
                                                    many1 (Atom is_ascii_lower)])])
                text_lower then Some 0.2
      else None)"

definition structural_rule :: "string \<Rightarrow> string list \<Rightarrow> real \<times> nat \<Rightarrow> real \<times> nat" where
  \<comment> \<open>Form field patterns, then the vocabulary; returns \<open>confidence +
      structural_confidence\<close> and the level.\<close>
  "structural_rule text_lower structural_words cl =
     (let confidence = fst cl; suggested_level = snd cl in
      case form_field_score text_lower of
        Some score \<Rightarrow> (confidence + score, 3)
      | None \<Rightarrow>
          if any_in [''introduction'', ''conclusion'', ''abstract'', ''summary'', ''overview'',
                     ''background'', ''options'', ''pathway'', ''requirements'',
                     ''prerequisites''] text_lower
          then (confidence + 0.4, if suggested_level = 3 then 1 else suggested_level)
          else if any_in [''methodology'', ''results'', ''discussion'', ''references'',
                          ''acknowledgements'', ''table of contents'', ''revision history'',
                          ''program'', ''curriculum'', ''schedule''] text_lower
          then (confidence + 0.3, if suggested_level = 3 then 2 else suggested_level)
          else if any_in [''appendix'', ''definitions'', ''scope'', ''requirements'',
                          ''evaluation'', ''approach''] text_lower
          then (confidence + 0.2, suggested_level)
          else if any_in structural_words text_lower
          then (confidence + 0.15, suggested_level)
          else (confidence, suggested_level))"

definition language_rule :: "string \<Rightarrow> real \<Rightarrow> real" where
  \<comment> \<open>The two adjustments for text with characters above code point 127.\<close>
  "language_rule text confidence =
     (let non_ascii_chars = length (filter (\<lambda>c. (of_char c :: nat) > 127) text);
          confidence1 = (if non_ascii_chars > 0
                            \<and> real non_ascii_chars / real (length text) > 0.3
                         then confidence + 0.15 else confidence)
      in if length text < 8 \<and> real non_ascii_chars > real (length text) * 0.5
         then confidence1 + 0.1 else confidence1)"

definition words_i :: "string list \<Rightarrow> rx" where
  \<comment> \<open>\<open>(w1|w2|...)\<close> under \<open>re.IGNORECASE\<close>\<close>
  "words_i ss = alts (map lit_i ss)"

definition chapter_score :: "string \<Rightarrow> (real \<times> nat) option" where
  \<comment> \<open>The loop over \<open>chapter_patterns\<close> (\<open>re.match\<close> under \<open>re.IGNORECASE\<close>, where
      \<open>[A-Z]\<close> and \<open>[a-z]\<close> both accept every ASCII letter): score and level of the
      first pattern that matches.\<close>
  "chapter_score text =
     (if re_match chapter_heading text then Some (0.7, 1)
      else if re_match (seqs [many1 digit, chr CHR ''.'', many1 ws, lit_i ''Professional'',
                              opt (chr_i CHR ''s''), many1 ws, lit_i ''who'']) text
      then Some (0.6, 3)
      else if re_match (seqs [many1 digit, chr CHR ''.'', many1 ws, lit_i ''Junior'', many1 ws,
                              lit_i ''professional'']) text
      then Some (0.6, 3)
      else if re_match (seqs [many1 digit, chr CHR ''.'', many1 ws, Atom is_ascii_letter,
                              many1 (Atom is_ascii_letter), Star dot,
                              words_i [''experience'', ''testing'', ''profession'']]) text
      then Some (0.5, 3)
      else None)"

definition numbered_score :: "string \<Rightarrow> (real \<times> nat) option" where
  \<comment> \<open>The loop over \<open>numbered_patterns\<close> (\<open>re.match\<close>, case-sensitive).\<close>
  "numbered_score text =
     (if re_match (seqs [many1 (seqs [many1 digit, chr CHR ''.'']), many1 ws,
                         Atom is_ascii_upper]) text
      then Some (0.6, 1)
      else if re_match (seqs [many1 (seqs [many1 digit, chr CHR ''.'', many1 digit]), many1 ws,
                              Atom is_ascii_upper]) text
      then Some (0.5, 2)
      else if re_match (seqs [many1 (seqs [many1 digit, chr CHR ''.'', many1 digit,
                                           chr CHR ''.'', many1 digit]), many1 ws,
                              Atom is_ascii_upper]) text
      then Some (0.4, 3)
      else if re_match (seqs [many1 (Atom is_ascii_upper), chr CHR ''.'', many1 ws,
                              Atom is_ascii_upper]) text
      then Some (0.35, 2)
      else if re_match (seqs [chr CHR ''('', Atom is_ascii_lower, chr CHR '')'', many1 ws,
                              Atom is_ascii_upper]) text
      then Some (0.3, 3)
      else None)"

definition numbering_rule :: "string \<Rightarrow> real \<times> nat \<Rightarrow> real \<times> nat" where
  \<comment> \<open>Chapter patterns first; numbered patterns only when no chapter pattern matched.\<close>
  "numbering_rule text cl =
     (case chapter_score text of
        Some (score, level) \<Rightarrow> (fst cl + score, level)
      | None \<Rightarrow>
          (case numbered_score text of
             Some (score, level) \<Rightarrow> (fst cl + score, level)
           | None \<Rightarrow> cl))"

definition layout_rule :: "string \<Rightarrow> rect option \<Rightarrow> real \<times> nat \<Rightarrow> real \<times> nat" where
  \<comment> \<open>Position, length, case and colon rules. The bounding box is \<open>None\<close> when the
      argument is \<open>None\<close> or empty (\<open>if bbox and bbox[1] < 100\<close>).\<close>
  "layout_rule text bbox cl =
     (let confidence = fst cl; suggested_level = snd cl;
          confidence1 = (case bbox of
                           Some b \<Rightarrow> if y0 b < 100 then confidence + 0.1 else confidence
                         | None \<Rightarrow> confidence);
          word_count = length (py_split text);
          confidence2 = (if 2 \<le> word_count \<and> word_count \<le> 8 then confidence1 + 0.1
                         else if word_count = 1 \<and> length text > 3 then confidence1 + 0.05
                         else if word_count > 15 then confidence1 - 0.3
                         else confidence1);
          confidence3 = (if istitle text then confidence2 + 0.1
                         else if isupper text \<and> word_count \<le> 5 then confidence2 + 0.15
                         else confidence2)
      in if endswith text '':''
         then (confidence3 + 0.1, if suggested_level = 1 then 2 else suggested_level)
         else (confidence3, suggested_level))"

definition analyze_context :: "block list \<Rightarrow> font_statistics \<Rightarrow> real" where
  \<comment> \<open>\<open>analyze_context\<close>; its \<open>text\<close> argument is never read.\<close>
  "analyze_context context_blocks font_stats =
     min (foldl (\<lambda>context_score b.
                   (let s = (if b_font_size b < fs_median font_stats
                             then context_score + 0.05 else context_score)
                    in if any_in [''this section'', ''the following'', ''as described'',
                                  ''section covers''] (lower (b_text b))
                       then s + 0.1 else s))
            0 (take 3 context_blocks))
         0.2"

definition calculate_heading_confidence ::
    "string \<Rightarrow> real \<Rightarrow> string \<Rightarrow> rect option \<Rightarrow> font_statistics \<Rightarrow> int \<Rightarrow> block list
     \<Rightarrow> string list \<Rightarrow> real \<times> nat" where
  \<comment> \<open>\<open>calculate_heading_confidence(text, font_size, font, bbox, font_stats, font_flags,
      context_blocks, structural_words)\<close>; an absent \<open>context_blocks\<close> or
      \<open>structural_words\<close> is the empty list.\<close>
  "calculate_heading_confidence text font_size font bbox font_stats font_flags
       context_blocks structural_words =
     (let size_ratio = (if fs_median font_stats > 0 then font_size / fs_median font_stats
                        else 1);
          cl0 = size_tier font_size font_stats
      in if size_ratio > 1.8 \<and> \<not> is_bold font font_flags
         then (max 0 (fst cl0 * 0.3), 3)
         else
           (let cl1 = (if size_ratio > 1.5 \<and> \<not> is_bold font font_flags
                       then (fst cl0 * 0.7, snd cl0) else cl0);
                cl2 = (if is_bold font font_flags then bold_rule cl1 else cl1);
                cl3 = structural_rule (lower text) structural_words cl2;
                cl4 = (language_rule text (fst cl3), snd cl3);
                cl5 = numbering_rule text cl4;
                cl6 = layout_rule text bbox cl5;
                confidence = (if context_blocks \<noteq> []
                              then fst cl6 + analyze_context context_blocks font_stats
                              else fst cl6)
            in (min confidence 1.0, snd cl6)))"

section \<open>Title extraction (extractor.py)\<close>

definition title_candidate :: "nat \<Rightarrow> string \<Rightarrow> bool" where
  \<comment> \<open>The filter on \<open>text = block["text"].strip()\<close> in the candidate loop of
      \<open>extract_title\<close>; the first argument is \<open>self.min_heading_length\<close>.\<close>
  "title_candidate min_heading_length t =
     (length t \<ge> min_heading_length \<and>
      length (py_split t) \<le> 20 \<and>
      \<not> re_match_end (many1 digit) (strip t) \<and>
      \<not> startswith (lower t) ''http'' \<and>
      \<not> startswith (lower t) ''www.'' \<and>
      \<not> endswith (lower t) ''address:'' \<and>
      \<not> startswith (lower t) ''rsvp:'' \<and>
      \<not> count_char t CHR ''-'' > 10 \<and>
      lower t \<notin> set [''page'', ''chapter'', ''section''])"

definition title_score :: "font_statistics \<Rightarrow> block \<Rightarrow> string \<Rightarrow> real" where
  \<comment> \<open>The score of one candidate; \<open>t\<close> is the stripped text of the block.\<close>
  "title_score font_stats b t =
     (if fs_median font_stats > 0 then b_font_size b / fs_median font_stats else 1)
     + (if y0 (b_bbox b) < 150 then 3 else 0)
     + (if py_in ''bold'' (lower (b_font b)) then 2 else 0)
     + (if istitle (b_text b) \<or> isupper (b_text b) then 1 else 0)
     + (if any_in [''rfp'', ''request'', ''proposal'', ''report'', ''manual'', ''guide'',
                   ''policy'', ''procedure'', ''specification'', ''document''] (lower t)
        then 5 else 0)
     + (if startswith t ''RFP:'' \<or> py_in ''Request for Proposal'' t then 10 else 0)
     - (if any_in [''parkway'', ''avenue'', ''street'', ''road'', ''drive'', ''suite'', ''floor'']
             (lower t)
          \<or> any_in [''copyright'', ''document may be copied'', ''acknowledged'', ''proprietary'']
             (lower t)
          \<or> length (py_split t) > 15
        then 10 else 0)"

fun max_by_score :: "real \<times> string \<Rightarrow> (real \<times> string) list \<Rightarrow> real \<times> string" where
  \<comment> \<open>\<open>max(candidates, key=lambda x: x[0])\<close>: the first pair with the greatest score.\<close>
  "max_by_score best [] = best"
| "max_by_score best (c # cs) = max_by_score (if fst c > fst best then c else best) cs"

definition fallback_candidate :: "string \<Rightarrow> bool" where
  \<comment> \<open>The filter of the fallback loop, on the stripped text.\<close>
  "fallback_candidate t =
     (t \<noteq> [] \<and> length (py_split t) \<le> 30 \<and>
      \<not> count_char t CHR ''-'' > 10 \<and>
      \<not> startswith (lower t) ''rsvp:'' \<and>
      \<not> startswith (lower t) ''www.'' \<and>
      \<not> startswith (lower t) ''address:'' \<and>
      \<not> any_in [''parkway'', ''avenue'', ''street'', ''suite'', ''forge'', ''tn ''] (lower t))"

definition flyer_candidate :: "string \<Rightarrow> bool" where
  "flyer_candidate candidate =
     (py_in ''topjump'' (lower candidate) \<or> py_in ''party'' (lower candidate) \<or>
      py_in ''climbing'' (lower candidate) \<or>
      (py_in ''hope'' (lower candidate) \<and> py_in ''see'' (lower candidate)) \<or>
      py_in ''www.'' (lower candidate))"

definition extract_title :: "nat \<Rightarrow> block list \<Rightarrow> font_statistics \<Rightarrow> string" where
  \<comment> \<open>\<open>extract_title\<close>; the first argument is \<open>self.min_heading_length\<close>.\<close>
  "extract_title min_heading_length blocks font_stats =
     (let first_page_blocks = filter (\<lambda>b. b_page b = 0) blocks in
      if first_page_blocks = [] then ''Untitled''
      else
        (let candidates =
               map (\<lambda>b. (title_score font_stats b (strip (b_text b)), strip (b_text b)))
                 (filter (\<lambda>b. title_candidate min_heading_length (strip (b_text b)))
                    first_page_blocks)
         in case candidates of
              c # cs \<Rightarrow>
                (let best_title = snd (max_by_score c cs) in
                 if any_in [''shoes'', ''climbing'', ''required'', ''closed'', ''open'', ''hours'']
                      (lower best_title)
                 then []
                 else if strip best_title \<noteq> [] then best_title else [])
            | [] \<Rightarrow>
                (let fallback_candidates =
                       filter fallback_candidate (map (\<lambda>b. strip (b_text b)) first_page_blocks)
                 in if fallback_candidates = [] then []
                    else if list_ex flyer_candidate fallback_candidates
                    then ''TopJump Party Invitation''
                    else
                      (let all_text = join_space (map (\<lambda>b. lower (b_text b)) first_page_blocks)
                       in if (py_in ''topjump'' all_text \<and>
                                (py_in ''party'' all_text \<or> py_in ''climbing'' all_text))
                             \<or> (py_in ''hope'' all_text \<and> py_in ''see'' all_text \<and>
                                 py_in ''there'' all_text)
                          then ''TopJump Party Invitation''
                          else hd fallback_candidates))))"

section \<open>Processing one file and a batch (processor.py)\<close>

text \<open>
  An exception is a value: a computation that may raise returns \<open>error + 'a\<close>, with
  \<open>Inl\<close> the exception (an instance of \<open>Exception\<close>, kept as its message \<open>str(e)\<close>).
  Reading the file is outside the program: \<open>_generate_file_hash\<close> and
  \<open>extract_outline\<close> are functions of the path, fixed for the time of a run (the fields
  \<open>generate_file_hash\<close> and \<open>run_extract_outline\<close> of the extractor); the second may raise. The cache is a dictionary passed along and returned updated. The timestamp
  of a cache entry, the \<open>metadata\<close> key of an extraction result and the counters in
  \<open>processing_stats\<close> are carried along or written only, and are left out.
\<close>

datatype error = Error string

record outline_entry =
  o_level :: nat
  o_text :: string
  o_page :: nat

record extraction =
  e_title :: string
  e_outline :: "outline_entry list"

record cache_entry =
  ce_hash :: "string option"
  ce_result :: "extraction option"

record result =
  r_filename :: string
  r_status :: string
  r_cached :: "bool option"
  r_error :: "string option"
  r_title :: string
  r_outline :: "outline_entry list"

record extractor =
  enable_cache :: bool
  generate_file_hash :: "string \<Rightarrow> string option"
  run_extract_outline :: "string \<Rightarrow> error + extraction"

definition basename :: "string \<Rightarrow> string" where
  \<comment> \<open>\<open>os.path.basename\<close>: what follows the last slash.\<close>
  "basename p = rev (takeWhile (\<lambda>c. c \<noteq> CHR ''/'') (rev p))"

definition is_cached ::
    "extractor \<Rightarrow> string \<Rightarrow> (string \<rightharpoonup> cache_entry) \<Rightarrow> bool \<times> extraction option" where
  \<comment> \<open>\<open>_is_cached\<close>; \<open>not file_hash\<close> holds for \<open>None\<close> and for the empty string.\<close>
  "is_cached ex pdf_path cache =
     (if \<not> enable_cache ex then (False, None)
      else case generate_file_hash ex pdf_path of
             None \<Rightarrow> (False, None)
           | Some file_hash \<Rightarrow>
               if file_hash = [] then (False, None)
               else (case cache (basename pdf_path) of
                       Some entry \<Rightarrow>
                         if ce_hash entry = Some file_hash then (True, ce_result entry)
                         else (False, None)
                     | None \<Rightarrow> (False, None)))"

definition success :: "string \<Rightarrow> bool \<Rightarrow> extraction \<Rightarrow> result" where
  \<comment> \<open>\<open>{"filename": filename, "status": "success", "cached": ..., **result}\<close>\<close>
  "success filename cached res =
     \<lparr> r_filename = filename, r_status = ''success'', r_cached = Some cached, r_error = None,
       r_title = e_title res, r_outline = e_outline res \<rparr>"


definition try_body ::
    "extractor \<Rightarrow> (string \<Rightarrow> error option) option \<Rightarrow> string \<Rightarrow> (string \<rightharpoonup> cache_entry)
     \<Rightarrow> error + result \<times> (string \<rightharpoonup> cache_entry)" where
  \<comment> \<open>The \<open>try\<close> block of \<open>process_single_pdf\<close>. A progress callback is a function that
      may raise (\<open>Some\<close> is the exception).\<close>
  "try_body ex progress_callback pdf_path cache =
     (let filename = basename pdf_path in
      case is_cached ex pdf_path cache of
        (True, Some cached_result) \<Rightarrow> Inr (success filename True cached_result, cache)
      | _ \<Rightarrow>
          (case (case progress_callback of
                   Some cb \<Rightarrow> cb (''Processing '' @ filename @ ''...'')
                 | None \<Rightarrow> None) of
             Some e \<Rightarrow> Inl e
           | None \<Rightarrow>
               (case run_extract_outline ex pdf_path of
                  Inl e \<Rightarrow> Inl e
                | Inr res \<Rightarrow>
                    Inr (success filename False res,
                         if enable_cache ex
                         then (case generate_file_hash ex pdf_path of
                                 None \<Rightarrow> cache
                               | Some file_hash \<Rightarrow>
                                   if file_hash = [] then cache
                                   else cache(filename \<mapsto>
                                          \<lparr> ce_hash = Some file_hash, ce_result = Some res \<rparr>))
                         else cache))))"



section \<open>Document profile and outline selection (extractor.py)\<close>

definition all_text :: "block list \<Rightarrow> string" where
  \<comment> \<open>\<open>" ".join(block["text"].lower() for block in blocks)\<close>\<close>
  "all_text blocks = join_space (map (\<lambda>b. lower (b_text b)) blocks)"

definition field_count :: "block list \<Rightarrow> nat" where
  \<comment> \<open>\<open>sum(1 for field in form_fields if field in all_text)\<close>\<close>
  "field_count blocks =
     length (filter (\<lambda>field. py_in field (all_text blocks))
               [''name'', ''designation'', ''date'', ''salary'', ''grade'', ''pay'', ''station''])"

definition pattern_count :: "block list \<Rightarrow> nat" where
  "pattern_count blocks =
     length (filter (\<lambda>pattern. py_in pattern (all_text blocks))
               [''s.no'', ''serial number'', ''amount'', ''details'', ''remarks''])"

definition is_form_document :: "block list \<Rightarrow> string \<Rightarrow> bool" where
  "is_form_document blocks title =
     (if any_in [''application'', ''form'', ''advance'', ''grant'', ''ltc''] (lower title)
      then field_count blocks \<ge> 4 \<or> pattern_count blocks \<ge> 2
      else False)"

record doc_info =
  d_total_blocks :: nat
  d_total_chars :: nat
  d_unique_fonts :: nat
  d_font_size_range :: real
  d_type :: string
  d_complexity :: string
  d_recommended_strategy :: string

definition analyze_document_type :: "block list \<Rightarrow> string \<Rightarrow> doc_info" where
  \<comment> \<open>\<open>_analyze_document_type\<close>: the tests in the order of the \<open>if ... elif\<close> chain.\<close>
  "analyze_document_type blocks title =
     (let total_chars = sum_list (map (\<lambda>b. length (b_text b)) blocks);
          font_sizes = map b_font_size blocks;
          info = \<lparr> d_total_blocks = length blocks, d_total_chars = total_chars,
                   d_unique_fonts = length (remdups (map b_font blocks)),
                   d_font_size_range = (if font_sizes \<noteq> []
                                        then Max (set font_sizes) - Min (set font_sizes) else 0),
                   d_type = ''unknown'', d_complexity = ''medium'',
                   d_recommended_strategy = ''hybrid'' \<rparr>
      in if total_chars < 400 \<and> length blocks < 6
         then info\<lparr>d_type := ''simple'', d_complexity := ''low'',
                   d_recommended_strategy := ''span_preferred''\<rparr>
         else if total_chars > 15000 \<or> length blocks > 100
         then info\<lparr>d_type := ''complex'', d_complexity := ''high'',
                   d_recommended_strategy := ''block_preferred''\<rparr>
         else if is_form_document blocks title
         then info\<lparr>d_type := ''form'', d_complexity := ''low'',
                   d_recommended_strategy := ''minimal''\<rparr>
         else if length blocks \<ge> 6 \<and> total_chars > 1000
         then info\<lparr>d_type := ''standard'', d_complexity := ''medium'',
                   d_recommended_strategy := ''block_preferred''\<rparr>
         else if length blocks = 6 \<and> total_chars < 500
         then info\<lparr>d_type := ''flyer'', d_complexity := ''low'',
                   d_recommended_strategy := ''block_preferred''\<rparr>
         else info\<lparr>d_type := ''standard'', d_complexity := ''medium'',
                   d_recommended_strategy := ''hybrid''\<rparr>)"

definition build_flat_outline :: "heading list \<Rightarrow> outline_entry list" where
  "build_flat_outline outline =
     map (\<lambda>item. \<lparr> o_level = h_level item, o_text = h_text item, o_page = h_page item \<rparr>) outline"

definition py_isdigit :: "string \<Rightarrow> bool" where
  \<comment> \<open>\<open>str.isdigit()\<close>: not empty, and only digits; below code point 256 these are
      \<open>0-9\<close> and the superscripts 178, 179 and 185.\<close>
  "py_isdigit s =
     (s \<noteq> [] \<and> list_all (\<lambda>c. is_digit_char c \<or> (of_char c :: nat) \<in> {178, 179, 185}) s)"

definition has_meaningful_content :: "outline_entry list \<Rightarrow> bool" where
  "has_meaningful_content outline =
     (if outline = [] then False
      else
        (let meaningful_count =
               length (filter (\<lambda>item. length (o_text item) > 3 \<and> \<not> py_isdigit (o_text item) \<and>
                          any_in [''introduction'', ''conclusion'', ''summary'', ''background'',
                                  ''overview'', ''methodology'', ''results'', ''discussion'',
                                  ''references'', ''abstract'', ''pathway'', ''options'',
                                  ''requirements'', ''hope'', ''see you'', ''there'']
                            (lower (o_text item))) outline)
         in real meaningful_count \<ge> max 1 (real (length outline) * 0.3)))"

definition calculate_outline_quality ::
    "outline_entry list \<Rightarrow> block list \<Rightarrow> string \<Rightarrow> real" where
  \<comment> \<open>\<open>_calculate_outline_quality(outline, blocks, title, method)\<close>; the title is never
      read.\<close>
  "calculate_outline_quality outline blocks method =
     (if outline = [] then 0
      else
        (let score1 = real (length outline) * 0.5
                      + (if list_ex (\<lambda>item. o_level item = 1) outline then 2.0 else 0)
                      + (if list_ex (\<lambda>item. o_level item = 2) outline then 1.0 else 0)
                      + (if list_ex (\<lambda>item. o_level item = 3) outline then 0.5 else 0)
                      + real (length (filter (\<lambda>item.
                            any_in [''introduction'', ''conclusion'', ''summary'', ''overview'',
                                    ''references'', ''table of contents'', ''background'',
                                    ''methodology'', ''results'', ''discussion'']
                              (lower (o_text item))) outline));
             score2 = (if real (length outline) > real (length blocks) * 0.8
                       then score1 * 0.3 else score1);
             total_chars = sum_list (map (\<lambda>b. length (b_text b)) blocks);
             score3 = (if total_chars < 1000 \<and> method = ''span'' then score2 * 1.5 else score2);
             score4 = (if total_chars > 5000 \<and> method = ''block'' then score3 * 1.2 else score3)
         in if method = ''span''
               \<and> list_ex (\<lambda>item. py_in ''hope'' (lower (o_text item))
                                 \<or> py_in ''see you'' (lower (o_text item))) outline
            then score4 + 3.0 else score4))"

definition select_best_extraction ::
    "outline_entry list \<Rightarrow> outline_entry list \<Rightarrow> block list \<Rightarrow> outline_entry list" where
  \<comment> \<open>\<open>_select_best_extraction(block_outline, span_outline, blocks, title)\<close>\<close>
  "select_best_extraction block_outline span_outline blocks =
     (if block_outline = [] \<and> span_outline \<noteq> [] then span_outline
      else if span_outline = [] \<and> block_outline \<noteq> [] then block_outline
      else if block_outline = [] \<and> span_outline = [] then []
      else if calculate_outline_quality span_outline blocks ''span''
                > calculate_outline_quality block_outline blocks ''block''
      then span_outline else block_outline)"

definition smart_extraction_strategy ::
    "outline_entry list \<Rightarrow> block list \<Rightarrow> string \<Rightarrow> doc_info \<Rightarrow> heading list
     \<Rightarrow> outline_entry list" where
  \<comment> \<open>\<open>_smart_extraction_strategy\<close>. The last argument is what
      \<open>extract_span_level_headings(pdf_path, ...)\<close> returns, read from the file.\<close>
  "smart_extraction_strategy block_outline blocks title info span_headings =
     (let strategy = d_recommended_strategy info;
          span_flat_outline = build_flat_outline (post_process_headings span_headings title)
      in if strategy = ''minimal'' then []
         else if strategy = ''span_preferred''
         then (if span_flat_outline \<noteq> [] \<and> has_meaningful_content span_flat_outline
               then span_flat_outline else block_outline)
         else if strategy = ''block_preferred''
         then (if block_outline \<noteq> [] \<and> length block_outline \<ge> 3 then block_outline
               else span_flat_outline)
         else select_best_extraction block_outline span_flat_outline blocks)"

definition extract_outline ::
    "nat \<Rightarrow> block list \<Rightarrow> heading list \<Rightarrow> heading list \<Rightarrow> extraction" where
  \<comment> \<open>\<open>extract_outline\<close> from the title extraction on, for a file that was read without
      error. The arguments are \<open>self.min_heading_length\<close>, the blocks returned by
      \<open>extract_text_blocks\<close>, the outline returned by \<open>_multi_pass_heading_detection\<close>,
      and the span headings read from the file.\<close>
  "extract_outline min_heading_length blocks detected_outline span_headings =
     (let font_stats = analyze_font_statistics blocks;
          title = extract_title min_heading_length blocks font_stats;
          info = analyze_document_type blocks title;
          outline = post_process_headings detected_outline title
      in if is_form_document blocks title
         then \<lparr> e_title = title, e_outline = build_flat_outline outline \<rparr>
         else \<lparr> e_title = title,
                e_outline = smart_extraction_strategy (build_flat_outline outline) blocks title
                              info span_headings \<rparr>)"

section \<open>Example inputs\<close>

definition body_block :: "string \<Rightarrow> real \<Rightarrow> block" where
  "body_block t sz =
     \<lparr> b_text = t, b_font_size = sz, b_font = ''Arial'', b_font_flags = 0, b_page = 0,
       b_bbox = (72, 200, 500, 260) \<rparr>"

definition poster_blocks :: "block list" where
  \<comment> \<open>Three blocks of 10 point text under one 40 point line.\<close>
  "poster_blocks =
     [body_block ''Grand Opening'' 40, body_block ''Doors at nine'' 10,
      body_block ''Music all day'' 10, body_block ''Bring a friend'' 10]"

definition detected :: "string \<Rightarrow> nat \<Rightarrow> nat \<Rightarrow> heading" where
  \<comment> \<open>A heading as pass 1 of \<open>_multi_pass_heading_detection\<close> appends it: confidence
      0.8 and no \<open>bbox\<close> key.\<close>
  "detected t l p =
     \<lparr> h_text = t, h_level = l, h_page = p, h_font_size = 12, h_font = ''Arial'',
       h_confidence = Some (4 / 5), h_bbox = None \<rparr>"

definition outline_with_duplicate :: "heading list" where
  \<comment> \<open>"Scope" is detected on page 0 and again on page 1, just before an H3.\<close>
  "outline_with_duplicate =
     [detected ''Intro'' 1 0, detected ''Scope'' 2 0, detected ''Summary'' 1 1,
      detected ''Scope'' 2 1, detected ''Detail'' 3 1]"

definition big_span :: span where
  "big_span = \<lparr> s_text = ''Big'', s_font = ''Arial-Bold'', s_size = 18, s_flags = 16,
                s_bbox = (10, 100, 60, 120), s_page = 0 \<rparr>"

definition small_span :: span where
  \<comment> \<open>On the same line as \<open>big_span\<close>, two points to its right, reaching lower.\<close>
  "small_span = \<lparr> s_text = ''small'', s_font = ''Arial-Bold'', s_size = 12, s_flags = 16,
                  s_bbox = (62, 101, 100, 125), s_page = 0 \<rparr>"

definition later_page_blocks :: "block list" where
  \<comment> \<open>Blocks of a document whose first page holds no text.\<close>
  "later_page_blocks =
     [(body_block ''Appendix A'' 14)\<lparr>b_page := 1\<rparr>, (body_block ''Tables'' 10)\<lparr>b_page := 2\<rparr>]"



definition form_blocks :: "block list" where
  \<comment> \<open>The first page of an application form: a heading and five field labels.\<close>
  "form_blocks =
     [(body_block ''Application form for grant of LTC advance'' 16)
        \<lparr>b_bbox := (72, 50, 500, 70)\<rparr>,
      body_block ''Name of the Government Servant'' 10,
      body_block ''Designation'' 10,
      body_block ''Date of entering service'' 10,
      body_block ''Basic salary'' 10,
      body_block ''Home town'' 10]"

definition short_form_blocks :: "block list" where
  \<comment> \<open>A form that is one short block.\<close>
  "short_form_blocks =
     [body_block ''Application for leave: name, designation, date and salary'' 12]"

section \<open>Properties\<close>

lemmas post_process_unfold =
  post_process_headings_def validate_hierarchy_def remove_duplicates_def text_groups_def
  position_key_def get_confidence_def keep_heading_def strip_def lower_def lower_char_def
  is_upper_char_def is_space_def

lemma post_process_outline_with_duplicate:
  "post_process_headings outline_with_duplicate ''Annual Report'' =
     [detected ''Intro'' 1 0, detected ''Scope'' 2 0, detected ''Summary'' 1 1,
      detected ''Detail'' 3 1]"
  by (simp add: outline_with_duplicate_def detected_def post_process_unfold)

text \<open>
  Claim C3 (level monotonicity of the final outline). Every outline the pipeline returns
  is an output of \<open>_post_process_headings\<close>. The hierarchy walk clamps jumps, but the
  deduplication that follows it removes entries: on \<open>outline_with_duplicate\<close> the second
  "Scope" (H2) is dropped, and the H3 "Detail" then follows the H1 "Summary" directly.
\<close>

theorem post_process_level_jump:
  "map h_level (post_process_headings outline_with_duplicate ''Annual Report'') = [1, 2, 1, 3]
   \<and> \<not> level_monotone (post_process_headings outline_with_duplicate ''Annual Report'')"
  by (simp add: post_process_outline_with_duplicate detected_def)

text \<open>
  Claim C4 (idempotent post-processing). On the same input a second run of
  \<open>_post_process_headings\<close> clamps the H3 left behind by the first run to H2, so the
  second run is not a no-op.
\<close>

theorem post_process_not_idempotent:
  "post_process_headings (post_process_headings outline_with_duplicate ''Annual Report'')
       ''Annual Report''
     = [detected ''Intro'' 1 0, detected ''Scope'' 2 0, detected ''Summary'' 1 1,
        detected ''Detail'' 2 1]
   \<and> post_process_headings (post_process_headings outline_with_duplicate ''Annual Report'')
       ''Annual Report''
     \<noteq> post_process_headings outline_with_duplicate ''Annual Report''"
  by (simp add: post_process_outline_with_duplicate)
     (simp add: detected_def post_process_unfold)

text \<open>
  Claim C7 (consolidated size and bounding box). The two example spans are merged into
  one; its size is the mean 15 of 18 and 12, but its box takes the bottom edge of the
  first span (120), not the greatest bottom edge of the group (125).
\<close>

theorem consolidated_bbox_not_union:
  "consolidate_adjacent_spans [small_span, big_span] =
     [\<lparr> s_text = ''Big small'', s_font = ''Arial-Bold'', s_size = 15, s_flags = 16,
        s_bbox = (10, 100, 100, 120), s_page = 0 \<rparr>]
   \<and> bbox_union [big_span, small_span] = (10, 100, 100, 125)"
  by (simp add: consolidate_adjacent_spans_def big_span_def small_span_def span_key_def
      x0_def y0_def x1_def y1_def can_join_def font_family_def consolidated_span_def
      bbox_union_def)

subsection \<open>Font statistics\<close>

lemma interp_bounds:
  assumes "sorted a" "0 \<le> t" "t \<le> real (length a - 1)" "a \<noteq> []"
  defines "lo \<equiv> nat \<lfloor>t\<rfloor>"
  defines "hi \<equiv> min (lo + 1) (length a - 1)"
  shows "lo < length a" "hi < length a" "lo \<le> hi"
    "a ! lo \<le> a ! lo + (t - real lo) * (a ! hi - a ! lo)"
    "a ! lo + (t - real lo) * (a ! hi - a ! lo) \<le> a ! hi"
proof -
  have n: "0 < length a" using assms by simp
  have lo_le: "real lo \<le> t" unfolding lo_def using assms(2) by (simp add: of_nat_floor)
  have t_lt: "t < real lo + 1" unfolding lo_def using assms(2) by linarith
  have "real lo \<le> real (length a - 1)" using lo_le assms(3) by linarith
  then have lo1: "lo \<le> length a - 1" by simp
  show lo: "lo < length a" using lo1 n by linarith
  show hi: "hi < length a" unfolding hi_def using n by (simp add: min_def) linarith
  show lh: "lo \<le> hi" unfolding hi_def using lo1 by simp
  have d: "a ! lo \<le> a ! hi" using assms(1) lh hi by (simp add: sorted_nth_mono)
  have g0: "0 \<le> t - real lo" using lo_le by simp
  have g1: "t - real lo \<le> 1" using t_lt by simp
  show "a ! lo \<le> a ! lo + (t - real lo) * (a ! hi - a ! lo)"
    using g0 d by simp
  have "(t - real lo) * (a ! hi - a ! lo) \<le> 1 * (a ! hi - a ! lo)"
    using g1 d by (intro mult_right_mono) auto
  then show "a ! lo + (t - real lo) * (a ! hi - a ! lo) \<le> a ! hi" by simp
qed

lemma np_percentile_mono:
  assumes "sorted a" "a \<noteq> []" "0 \<le> q" "q \<le> q'" "q' \<le> 100"
  shows "np_percentile a q \<le> np_percentile a q'"
proof -
  define n where "n = length a"
  define t where "t = q / 100 * real (n - 1)"
  define t' where "t' = q' / 100 * real (n - 1)"
  define lo where "lo = nat \<lfloor>t\<rfloor>"
  define lo' where "lo' = nat \<lfloor>t'\<rfloor>"
  define hi where "hi = min (lo + 1) (n - 1)"
  define hi' where "hi' = min (lo' + 1) (n - 1)"
  have t0: "0 \<le> t" unfolding t_def using assms by simp
  have tt: "t \<le> t'" unfolding t_def t'_def using assms by (simp add: mult_right_mono divide_right_mono)
  have "q' / 100 \<le> 1" using assms by simp
  then have "q' / 100 * real (n - 1) \<le> 1 * real (n - 1)" by (intro mult_right_mono) auto
  then have t'n: "t' \<le> real (length a - 1)" unfolding t'_def n_def by simp
  have tn: "t \<le> real (length a - 1)" using tt t'n by linarith
  have t'0: "0 \<le> t'" using t0 tt by linarith
  note b = interp_bounds [OF assms(1) t0 tn assms(2), folded lo_def n_def, folded hi_def]
  note b' = interp_bounds [OF assms(1) t'0 t'n assms(2), folded lo'_def n_def, folded hi'_def]
  have P: "np_percentile a q = a ! lo + (t - real lo) * (a ! hi - a ! lo)"
    unfolding np_percentile_def Let_def t_def lo_def hi_def n_def by simp
  have P': "np_percentile a q' = a ! lo' + (t' - real lo') * (a ! hi' - a ! lo')"
    unfolding np_percentile_def Let_def t'_def lo'_def hi'_def n_def by simp
  have lolo: "lo \<le> lo'" unfolding lo_def lo'_def using tt by (simp add: floor_mono nat_mono)
  show ?thesis
  proof (cases "lo = lo'")
    case True
    then have h: "hi = hi'" unfolding hi_def hi'_def by simp
    have d: "a ! lo \<le> a ! hi" using assms(1) b(2,3) by (simp add: sorted_nth_mono n_def)
    have "(t - real lo) * (a ! hi - a ! lo) \<le> (t' - real lo) * (a ! hi - a ! lo)"
      using tt d by (intro mult_right_mono) auto
    then show ?thesis unfolding P P' using True h by simp
  next
    case False
    then have "lo + 1 \<le> lo'" using lolo by simp
    then have "hi \<le> lo'" unfolding hi_def by simp
    then have "a ! hi \<le> a ! lo'" using assms(1) b'(1) by (simp add: sorted_nth_mono n_def)
    then show ?thesis unfolding P P' using b(5) b'(4) by linarith
  qed
qed


lemma np_median_pos:
  assumes "xs \<noteq> []" "list_all (\<lambda>x. 0 < x) xs"
  shows "0 < np_median xs"
proof -
  define s where "s = sort xs"
  have n: "0 < length s" using assms(1) by (simp add: s_def)
  have pos: "0 < s ! i" if "i < length s" for i
  proof -
    have "s ! i \<in> set xs" using that nth_mem [of i s] by (simp add: s_def)
    then show ?thesis using assms(2) by (simp add: list_all_iff)
  qed
  have a: "0 < s ! (length s div 2)" using n by (intro pos) simp
  have b: "0 < s ! (length s div 2 - 1)" using n by (intro pos) linarith
  show ?thesis unfolding np_median_def Let_def s_def [symmetric] using a b by simp
qed

lemma size_clusters_ordered:
  assumes "0 \<le> median" "p50 \<le> p75" "p75 \<le> p90" "p90 \<le> p95"
  shows "length (size_clusters_of font_sizes median [p25, p50, p75, p90, p95] lo hi) = 3"
    and "c_min_size (size_clusters_of font_sizes median [p25, p50, p75, p90, p95] lo hi ! 1)
         \<le> c_min_size (size_clusters_of font_sizes median [p25, p50, p75, p90, p95] lo hi ! 0)"
  using assms unfolding size_clusters_of_def clusters_def Let_def
  by (auto simp: max_def)

lemma thresholds_h1_ge_h2_aux:
  "fs_h2 (analyze_font_statistics blocks) \<le> fs_h1 (analyze_font_statistics blocks)"
proof -
  define font_sizes where "font_sizes = filter (\<lambda>size. size > 0) (map b_font_size blocks)"
  show ?thesis
  proof (cases "font_sizes = []")
    case True
    then show ?thesis by (simp add: analyze_font_statistics_def font_sizes_def [symmetric])
  next
    case False
    define srt where "srt = sort font_sizes"
    have "length srt = length font_sizes" by (simp add: srt_def)
    then have "srt \<noteq> []" using False by (metis length_0_conv)
    then have s: "sorted srt" "srt \<noteq> []" by (simp_all add: srt_def)
    have m: "0 \<le> np_median font_sizes"
      using np_median_pos [OF False] by (simp add: font_sizes_def list_all_iff less_imp_le)
    note c = size_clusters_ordered [OF m
        np_percentile_mono [OF s, of 50 75] np_percentile_mono [OF s, of 75 90]
        np_percentile_mono [OF s, of 90 95],
        of font_sizes "np_percentile srt 25" "Min (set font_sizes)" "Max (set font_sizes)"]
    have "length (size_clusters_of font_sizes (np_median font_sizes)
            (map (np_percentile srt) [25, 50, 75, 90, 95])
            (Min (set font_sizes)) (Max (set font_sizes))) = 3"
      using c(1) by simp
    moreover have "c_min_size (size_clusters_of font_sizes (np_median font_sizes)
            (map (np_percentile srt) [25, 50, 75, 90, 95])
            (Min (set font_sizes)) (Max (set font_sizes)) ! 1)
        \<le> c_min_size (size_clusters_of font_sizes (np_median font_sizes)
            (map (np_percentile srt) [25, 50, 75, 90, 95])
            (Min (set font_sizes)) (Max (set font_sizes)) ! 0)"
      using c(2) by simp
    ultimately show ?thesis
      using False
      by (auto simp add: analyze_font_statistics_def font_sizes_def [symmetric] Let_def
          srt_def [symmetric])
  qed
qed

lemma h3_floor:
  "7.5 \<le> fs_h3 (analyze_font_statistics blocks)"
  by (auto simp add: analyze_font_statistics_def Let_def max_def)

lemma size_clusters_third:
  assumes "0 \<le> median" "p50 \<le> p75" "p75 \<le> p90" "p90 \<le> p95"
  shows "c_min_size (size_clusters_of font_sizes median [p25, p50, p75, p90, p95] lo hi ! 2)
         \<le> c_min_size (size_clusters_of font_sizes median [p25, p50, p75, p90, p95] lo hi ! 1)"
  using assms unfolding size_clusters_of_def clusters_def Let_def
  by (auto simp: max_def)

lemma thresholds_structure:
  "(let font_sizes = filter (\<lambda>size. size > 0) (map b_font_size blocks);
        st = analyze_font_statistics blocks;
        cl = fs_size_clusters st
    in if font_sizes = []
       then cl = [] \<and> fs_h1 st = 16 \<and> fs_h2 st = 14 \<and> fs_h3 st = 12
       else length cl = 3
          \<and> fs_h1 st = c_min_size (cl ! 0) \<and> fs_h2 st = c_min_size (cl ! 1)
          \<and> c_min_size (cl ! 1) \<le> c_min_size (cl ! 0)
          \<and> c_min_size (cl ! 2) \<le> c_min_size (cl ! 1)
          \<and> fs_h3 st = (if np_mean font_sizes > 12 then max (np_mean font_sizes * 0.85) 8.0
                         else max (np_mean font_sizes * 0.8) 7.5))"
proof -
  define font_sizes where "font_sizes = filter (\<lambda>size. size > 0) (map b_font_size blocks)"
  show ?thesis
  proof (cases "font_sizes = []")
    case True
    then show ?thesis by (simp add: analyze_font_statistics_def font_sizes_def [symmetric])
  next
    case False
    define srt where "srt = sort font_sizes"
    have "length srt = length font_sizes" by (simp add: srt_def)
    then have "srt \<noteq> []" using False by (metis length_0_conv)
    then have s: "sorted srt" "srt \<noteq> []" by (simp_all add: srt_def)
    have m: "0 \<le> np_median font_sizes"
      using np_median_pos [OF False] by (simp add: font_sizes_def list_all_iff less_imp_le)
    define cl where "cl = size_clusters_of font_sizes (np_median font_sizes)
            [np_percentile srt 25, np_percentile srt 50, np_percentile srt 75,
             np_percentile srt 90, np_percentile srt 95]
            (Min (set font_sizes)) (Max (set font_sizes))"
    note c = size_clusters_ordered [OF m
        np_percentile_mono [OF s, of 50 75] np_percentile_mono [OF s, of 75 90]
        np_percentile_mono [OF s, of 90 95],
        of font_sizes "np_percentile srt 25" "Min (set font_sizes)" "Max (set font_sizes)"]
    note d = size_clusters_third [OF m
        np_percentile_mono [OF s, of 50 75] np_percentile_mono [OF s, of 75 90]
        np_percentile_mono [OF s, of 90 95],
        of font_sizes "np_percentile srt 25" "Min (set font_sizes)" "Max (set font_sizes)"]
    have l: "length cl = 3" using c(1) by (simp add: cl_def)
    have o1: "c_min_size (cl ! 1) \<le> c_min_size (cl ! 0)" using c(2) by (simp add: cl_def)
    have o2: "c_min_size (cl ! 2) \<le> c_min_size (cl ! 1)" using d by (simp add: cl_def)
    have ne: "cl \<noteq> []" using l by auto
    have st: "analyze_font_statistics blocks =
        \<lparr> fs_mean = np_mean font_sizes, fs_median = np_median font_sizes,
          fs_std = np_std font_sizes,
          fs_min = Some (Min (set font_sizes)), fs_max = Some (Max (set font_sizes)),
          fs_size_clusters = cl,
          fs_percentiles = Some (map (np_percentile srt) [25, 50, 75, 90, 95]),
          fs_h1 = c_min_size (cl ! 0), fs_h2 = c_min_size (cl ! 1),
          fs_h3 = (if np_mean font_sizes > 12 then max (np_mean font_sizes * 0.85) 8.0
                   else max (np_mean font_sizes * 0.8) 7.5) \<rparr>"
      using False ne l
      by (simp add: analyze_font_statistics_def font_sizes_def [symmetric] Let_def
          srt_def [symmetric] cl_def [symmetric])
    show ?thesis
      unfolding Let_def font_sizes_def [symmetric] st
      using False l o1 o2 by simp
  qed
qed

lemma poster_thresholds:
  "fs_h1 (analyze_font_statistics poster_blocks) = 15"
  "fs_h2 (analyze_font_statistics poster_blocks) = 13"
  "fs_h3 (analyze_font_statistics poster_blocks) = 14.875"
  by (simp_all add: analyze_font_statistics_def poster_blocks_def body_block_def np_mean_def
      np_median_def size_clusters_of_def clusters_def Let_def)

text \<open>
  Claim C2 (threshold ordering), as the code has it. When some block has a positive
  size there are three size clusters; \<open>h1\<close> and \<open>h2\<close> are the minimum sizes of the
  first two, and the three cluster sizes are ordered, \<open>h1 \<ge> h2 \<ge> size_clusters[2].min_size\<close>,
  for every list of blocks. The threshold \<open>h3\<close> is not the third cluster's minimum size:
  it is exactly \<open>max(mean * 0.85, 8.0)\<close> above a mean of 12 and \<open>max(mean * 0.8, 7.5)\<close>
  otherwise, a value computed from the mean alone (so at least 7.5). When no block has
  a positive size the thresholds are the defaults 16, 14 and 12.
\<close>

theorem thresholds_h1_ge_h2:
  "(let font_sizes = filter (\<lambda>size. size > 0) (map b_font_size blocks);
        st = analyze_font_statistics blocks;
        cl = fs_size_clusters st
    in fs_h2 st \<le> fs_h1 st \<and> 7.5 \<le> fs_h3 st \<and>
       (if font_sizes = []
        then cl = [] \<and> fs_h1 st = 16 \<and> fs_h2 st = 14 \<and> fs_h3 st = 12
        else length cl = 3
           \<and> fs_h1 st = c_min_size (cl ! 0) \<and> fs_h2 st = c_min_size (cl ! 1)
           \<and> c_min_size (cl ! 2) \<le> fs_h2 st
           \<and> fs_h3 st = (if np_mean font_sizes > 12 then max (np_mean font_sizes * 0.85) 8.0
                          else max (np_mean font_sizes * 0.8) 7.5)))"
  using thresholds_structure [of blocks] thresholds_h1_ge_h2_aux [of blocks] h3_floor [of blocks]
  by (simp add: Let_def split: if_splits)

text \<open>
  The claim as stated (\<open>h1 \<ge> h2 \<ge> h3\<close> for every list of blocks) fails on a page of
  10 point text under one 40 point line: the mean 17.5 puts \<open>h3\<close> at 14.875, above
  \<open>h2 = 13\<close>.
\<close>

theorem thresholds_not_ordered:
  "\<not> (fs_h2 (analyze_font_statistics poster_blocks) \<le> fs_h1 (analyze_font_statistics poster_blocks)
      \<and> fs_h3 (analyze_font_statistics poster_blocks) \<le> fs_h2 (analyze_font_statistics poster_blocks))"
  by (simp add: poster_thresholds)

subsection \<open>Title extraction\<close>

text \<open>
  Claim C10 (title of a document without first-page text). When no block of the input
  list has page index 0, \<open>extract_title\<close> returns the literal string "Untitled", which
  is not the empty string, whatever the minimum heading length and the font statistics.
\<close>

theorem extract_title_untitled:
  assumes "list_all (\<lambda>b. b_page b \<noteq> 0) blocks"
  shows "extract_title min_heading_length blocks font_stats = ''Untitled''
         \<and> extract_title min_heading_length blocks font_stats \<noteq> []"
proof -
  have "filter (\<lambda>b. b_page b = 0) blocks = []"
    using assms by (simp add: filter_empty_conv list_all_iff)
  then show ?thesis by (simp add: extract_title_def)
qed

theorem extract_title_untitled_witness:
  "list_all (\<lambda>b. b_page b \<noteq> 0) later_page_blocks
   \<and> extract_title 3 later_page_blocks (analyze_font_statistics later_page_blocks) = ''Untitled''"
  using extract_title_untitled
    [of later_page_blocks 3 "analyze_font_statistics later_page_blocks"]
  by (simp add: later_page_blocks_def body_block_def)

subsection \<open>Noise classification\<close>

lemma example_url_stripped: "strip ''www.example.com'' = ''www.example.com''"
  by (simp add: strip_def is_space_def)

lemma example_url_special:
  "length (filter is_special_char ''www.example.com'') = 2"
  "length (filter is_ascii_letter ''www.example.com'') = 13"
  by (simp_all add: is_special_char_def is_ascii_letter_def)

lemma example_url_starts: "startswith (lower ''www.example.com'') ''www.''"
  by (simp add: startswith_def lower_def lower_char_def is_upper_char_def)

text \<open>
  Claim C6 (a website address is noise). For every font size, every font statistics and
  every list of noise patterns, \<open>is_noise_with_confidence\<close> returns \<open>True\<close> on the text
  "www.example.com": the text is none of the protected labels, two special characters
  against thirteen letters stay under the ratio 0.5, and the text starts with "www.".
\<close>

theorem url_is_noise:
  "is_noise_with_confidence ''www.example.com'' font_size font_stats noise_patterns"
  unfolding is_noise_with_confidence_def Let_def example_url_stripped
  using example_url_starts
  by (simp add: example_url_special remove_char_def)

text \<open>
  Claim C9 (the verdict does not depend on the font). For every text and every list of
  noise patterns, \<open>is_noise_with_confidence\<close> returns the same boolean for any two font
  sizes and any two font statistics: the function reads neither argument.
\<close>

theorem noise_ignores_font:
  "is_noise_with_confidence text font_size font_stats noise_patterns
   = is_noise_with_confidence text font_size' font_stats' noise_patterns"
  by (simp add: is_noise_with_confidence_def)

subsection \<open>Heading confidence\<close>

lemma analyze_font_statistics_median_pos:
  "0 < fs_median (analyze_font_statistics blocks)"
proof -
  define font_sizes where "font_sizes = filter (\<lambda>size. size > 0) (map b_font_size blocks)"
  show ?thesis
  proof (cases "font_sizes = []")
    case True
    then show ?thesis by (simp add: analyze_font_statistics_def font_sizes_def [symmetric])
  next
    case False
    have "0 < np_median font_sizes"
      using np_median_pos [OF False] by (simp add: font_sizes_def list_all_iff)
    then show ?thesis using False
      by (simp add: analyze_font_statistics_def font_sizes_def [symmetric] Let_def)
  qed
qed

lemma poster_median: "fs_median (analyze_font_statistics poster_blocks) = 10"
  by (simp add: analyze_font_statistics_def poster_blocks_def body_block_def np_median_def Let_def)

text \<open>
  Claim C5 (large text that is not bold). The median of the font statistics is positive
  (it always is for statistics computed by \<open>analyze_font_statistics\<close>, see
  \<open>analyze_font_statistics_median_pos\<close>). When the font size divided by the median
  exceeds 1.8 and the text is not bold (bold bit unset, no bold pattern in the font name),
  \<open>calculate_heading_confidence\<close> returns the confidence of the size tier multiplied by
  0.3 and clamped to at least 0, with level H3. The result does not depend on the text,
  the bounding box, the context blocks or the structural words: no later rule is applied.
\<close>

theorem large_plain_text_demoted:
  assumes "0 < fs_median font_stats"
    and "font_size / fs_median font_stats > 1.8"
    and "\<not> is_bold font font_flags"
  shows "calculate_heading_confidence text font_size font bbox font_stats font_flags
           context_blocks structural_words
         = (max 0 ((if font_size \<ge> fs_h1 font_stats then 0.4
                    else if font_size \<ge> fs_h2 font_stats then 0.3
                    else if font_size \<ge> fs_h3 font_stats then 0.25
                    else - 0.1) * 0.3), 3)"
  using assms by (simp add: calculate_heading_confidence_def size_tier_def Let_def)

theorem large_plain_text_demoted_witness:
  "0 < fs_median (analyze_font_statistics poster_blocks)
   \<and> 40 / fs_median (analyze_font_statistics poster_blocks) > 1.8
   \<and> \<not> is_bold ''Arial'' 0
   \<and> calculate_heading_confidence ''Grand Opening'' 40 ''Arial'' (Some (72, 200, 500, 260))
        (analyze_font_statistics poster_blocks) 0 [] [] = (0.12, 3)"
  using large_plain_text_demoted [of "analyze_font_statistics poster_blocks" 40 "''Arial''" 0
      "''Grand Opening''" "Some (72, 200, 500, 260)" "[]" "[]"]
  by (simp add: poster_median poster_thresholds is_bold_def any_in_def lower_def lower_char_def
      is_upper_char_def)

subsection \<open>Processing one file and a batch\<close>


lemma extraction_failure_raises:
  assumes "is_cached ex pdf_path cache = (False, None)"
    and "run_extract_outline ex pdf_path = Inl e"
  shows "try_body ex None pdf_path cache = Inl e"
  using assms by (simp add: try_body_def)





subsection \<open>Form documents\<close>

lemmas string_eval = strip_def lower_def lower_char_def is_upper_char_def is_lower_char_def
  is_space_def startswith_def endswith_def suffix_to_prefix count_char_def py_split_def
  any_in_def istitle_def isupper_def join_space_def char_of_def bit_0

lemmas digits_only_eval = re_match_end_def fullmatch_def many1_def digit_def opt_def chr_def
  is_digit_char_def

lemma short_form_title:
  "extract_title 3 short_form_blocks font_stats
   = ''Application for leave: name, designation, date and salary''"
  by (simp add: extract_title_def short_form_blocks_def body_block_def title_candidate_def
      string_eval digits_only_eval Let_def)

lemma short_form_fields: "field_count short_form_blocks = 4"
  by (simp add: field_count_def all_text_def short_form_blocks_def body_block_def string_eval)

lemma form_median: "fs_median (analyze_font_statistics form_blocks) = 10"
  by (simp add: analyze_font_statistics_def form_blocks_def body_block_def np_median_def Let_def)

lemma form_title:
  assumes "fs_median font_stats = 10"
  shows "extract_title 3 form_blocks font_stats = ''Application form for grant of LTC advance''"
  using assms
  by (simp add: extract_title_def form_blocks_def body_block_def title_candidate_def
      title_score_def y0_def string_eval digits_only_eval Let_def)

lemma form_fields: "field_count form_blocks = 4"
  by (simp add: field_count_def all_text_def form_blocks_def body_block_def string_eval)


lemma form_document_cases:
  assumes "py_in ''application'' (lower title)" and "field_count blocks \<ge> 4"
  shows "is_form_document blocks title"
  using assms by (simp add: is_form_document_def any_in_def)

text \<open>
  Claim C1 (form documents), as the code has it. Let the extracted title contain
  "application" and the text of the blocks contain at least 4 of the words name,
  designation, date, salary, grade, pay, station. Then \<open>is_form_document\<close> holds. The
  profile is type "form" with strategy "minimal" only when the document is neither
  "simple" (fewer than 400 characters and fewer than 6 blocks) nor "complex" (more than
  15000 characters or more than 100 blocks), because \<open>_analyze_document_type\<close> tests
  those two first. The outline returned by \<open>extract_outline\<close> is the flattened,
  post-processed outline of the detected headings: for a form document the strategy is
  never consulted, so the empty outline of the "minimal" strategy is not what is returned.
\<close>

theorem form_document_outline:
  assumes "title = extract_title min_heading_length blocks (analyze_font_statistics blocks)"
    and "py_in ''application'' (lower title)"
    and "field_count blocks \<ge> 4"
  shows "is_form_document blocks title
    \<and> d_type (analyze_document_type blocks title) =
        (if sum_list (map (\<lambda>b. length (b_text b)) blocks) < 400 \<and> length blocks < 6
         then ''simple''
         else if sum_list (map (\<lambda>b. length (b_text b)) blocks) > 15000 \<or> length blocks > 100
         then ''complex'' else ''form'')
    \<and> d_recommended_strategy (analyze_document_type blocks title) =
        (if sum_list (map (\<lambda>b. length (b_text b)) blocks) < 400 \<and> length blocks < 6
         then ''span_preferred''
         else if sum_list (map (\<lambda>b. length (b_text b)) blocks) > 15000 \<or> length blocks > 100
         then ''block_preferred'' else ''minimal'')
    \<and> extract_outline min_heading_length blocks detected_outline span_headings =
        \<lparr> e_title = title,
          e_outline = build_flat_outline (post_process_headings detected_outline title) \<rparr>"
proof -
  have f: "is_form_document blocks title"
    using assms(2,3) by (rule form_document_cases)
  have t: "d_type (analyze_document_type blocks title) =
        (if sum_list (map (\<lambda>b. length (b_text b)) blocks) < 400 \<and> length blocks < 6
         then ''simple''
         else if sum_list (map (\<lambda>b. length (b_text b)) blocks) > 15000 \<or> length blocks > 100
         then ''complex'' else ''form'')"
    using f by (simp add: analyze_document_type_def Let_def)
  have s: "d_recommended_strategy (analyze_document_type blocks title) =
        (if sum_list (map (\<lambda>b. length (b_text b)) blocks) < 400 \<and> length blocks < 6
         then ''span_preferred''
         else if sum_list (map (\<lambda>b. length (b_text b)) blocks) > 15000 \<or> length blocks > 100
         then ''block_preferred'' else ''minimal'')"
    using f by (simp add: analyze_document_type_def Let_def)
  have e: "extract_outline min_heading_length blocks detected_outline span_headings =
        \<lparr> e_title = title,
          e_outline = build_flat_outline (post_process_headings detected_outline title) \<rparr>"
    using f assms(1) by (simp add: extract_outline_def Let_def)
  show ?thesis using f t s e by simp
qed

theorem form_document_outline_witness:
  "''Application form for grant of LTC advance''
     = extract_title 3 form_blocks (analyze_font_statistics form_blocks)
   \<and> py_in ''application'' (lower ''Application form for grant of LTC advance'')
   \<and> field_count form_blocks \<ge> 4
   \<and> d_type (analyze_document_type form_blocks ''Application form for grant of LTC advance'')
       = ''form''
   \<and> d_recommended_strategy
         (analyze_document_type form_blocks ''Application form for grant of LTC advance'')
       = ''minimal''
   \<and> e_outline (extract_outline 3 form_blocks
         [detected ''Name of the Government Servant'' 3 0, detected ''Designation'' 3 0] [])
       = [\<lparr> o_level = 3, o_text = ''Name of the Government Servant'', o_page = 0 \<rparr>,
          \<lparr> o_level = 3, o_text = ''Designation'', o_page = 0 \<rparr>]"
  using form_document_outline [of "''Application form for grant of LTC advance''" 3 form_blocks
      "[detected ''Name of the Government Servant'' 3 0, detected ''Designation'' 3 0]" "[]"]
    form_title [OF form_median] form_fields
  by (simp add: string_eval)
     (simp add: form_blocks_def body_block_def build_flat_outline_def detected_def
        post_process_unfold char_of_def bit_0)

text \<open>
  The claim as stated fails on a form that is one short block: its title contains
  "application" and its text four of the field words, but with 57 characters in one
  block it is classified "simple" with strategy "span_preferred".
\<close>

theorem short_form_is_simple:
  "py_in ''application''
     (lower (extract_title 3 short_form_blocks (analyze_font_statistics short_form_blocks)))
   \<and> field_count short_form_blocks \<ge> 4
   \<and> d_type (analyze_document_type short_form_blocks
         (extract_title 3 short_form_blocks (analyze_font_statistics short_form_blocks)))
       = ''simple''
   \<and> d_recommended_strategy (analyze_document_type short_form_blocks
         (extract_title 3 short_form_blocks (analyze_font_statistics short_form_blocks)))
       = ''span_preferred''
   \<and> \<not> (d_type (analyze_document_type short_form_blocks
         (extract_title 3 short_form_blocks (analyze_font_statistics short_form_blocks)))
       = ''form''
      \<and> d_recommended_strategy (analyze_document_type short_form_blocks
         (extract_title 3 short_form_blocks (analyze_font_statistics short_form_blocks)))
       = ''minimal'')"
  by (simp add: short_form_title short_form_fields)
     (simp add: analyze_document_type_def short_form_blocks_def body_block_def string_eval)

end
